theory Spec2Isabelle
  imports Complex_Main
begin

section \<open>flagfig: flags, environment and configuration files merged by \<open>Collate\<close>\<close>

text \<open>
  The Go package \<open>flagfig\<close> (file \<open>flagfig.go\<close>) wraps the standard \<open>flag.FlagSet\<close>.
  The embedding has three layers:
  \<^item> what the package takes from the Go standard library (\<open>flag\<close>, \<open>fmt\<close>,
    \<open>strings\<close>, \<open>strconv\<close>, \<open>time\<close>, \<open>os\<close>, \<open>io/ioutil\<close>, \<open>encoding/json\<close>);
  \<^item> the registration operations of \<open>FlagfigSet\<close>;
  \<^item> \<open>Parse\<close>, \<open>Collate\<close> and \<open>readConfigurationFiles\<close>.
\<close>

subsection \<open>Outcomes: returning, panicking, exiting\<close>

text \<open>
  A Go call either returns, panics, or ends the process (\<open>log.Fatalf\<close> writes a line
  and exits with status 1, \<open>os.Exit\<close> exits). Errors that are returned are values
  of type \<open>error\<close>, modelled by their message.
\<close>

type_synonym error = string

datatype abort = panic string | logFatal string | osExit nat

datatype 'a outcome = Ok 'a | Abort abort

subsection \<open>Values of flags\<close>

text \<open>
  A \<open>float64\<close> is modelled by the exact number it holds. A number decoded from JSON is
  always finite and is carried as a \<open>rat\<close>; the cell of a Float64 flag can also hold
  the infinities and NaN that \<open>strconv.ParseFloat\<close> may return. The sign of a zero is
  not modelled.
\<close>

datatype float64 = Finite rat | PosInf | NegInf | NaN

text \<open>
  The typed cells of package \<open>flag\<close>. Each registration of \<open>flagfig\<close> allocates a
  fresh cell (\<open>p := new(T)\<close>) and binds it to one flag, so a cell is stored with its
  flag. \<open>time.Duration\<close> is a count of nanoseconds.
\<close>

datatype Value =
    boolValue bool
  | stringValue string
  | intValue int
  | int64Value int
  | uintValue nat
  | uint64Value nat
  | float64Value float64
  | durationValue int

definition Nanosecond :: int where "Nanosecond = 1"

definition Second :: int where "Second = 1000000000 * Nanosecond"

text \<open>
  The string conversions of \<open>strconv\<close> and \<open>time\<close> that the typed cells call.
  Their grammar (base prefixes, underscores, hexadecimal floats, duration units) differs
  between Go releases and is no part of this package, so they are parameters of the
  model: each returns the value and the error of the Go function, the error \<open>None\<close>
  for \<open>nil\<close>. \<open>ParseInt\<close> stands for \<open>strconv.ParseInt(s, 0, strconv.IntSize)\<close>,
  \<open>ParseInt64\<close> for \<open>strconv.ParseInt(s, 0, 64)\<close>, and likewise for the unsigned
  pair; \<open>ParseFloat\<close> for \<open>strconv.ParseFloat(s, 64)\<close>.
\<close>

record strconv =
  ParseInt :: "string \<Rightarrow> int \<times> error option"
  ParseInt64 :: "string \<Rightarrow> int \<times> error option"
  ParseUint :: "string \<Rightarrow> nat \<times> error option"
  ParseUint64 :: "string \<Rightarrow> nat \<times> error option"
  ParseFloat :: "string \<Rightarrow> float64 \<times> error option"
  ParseDuration :: "string \<Rightarrow> int \<times> error option"

text \<open>\<open>strconv.ParseBool\<close> is a fixed table.\<close>

definition ParseBool :: "string \<Rightarrow> bool \<times> error option" where
  "ParseBool str =
     (if str \<in> set [''1'', ''t'', ''T'', ''true'', ''TRUE'', ''True''] then (True, None)
      else if str \<in> set [''0'', ''f'', ''F'', ''false'', ''FALSE'', ''False''] then (False, None)
      else (False, Some ''strconv.ParseBool: invalid syntax''))"

text \<open>
  The \<open>Set\<close> method of each typed cell. Package \<open>flag\<close> stores what the conversion
  returned before it looks at the error (\<open>v, err := strconv.ParseInt(...); *i = intValue(v);
  return err\<close>), so a failed conversion overwrites the cell, with the zero value or the
  clamped one that came back. A string cell takes any string.
\<close>

fun Value_Set :: "strconv \<Rightarrow> Value \<Rightarrow> string \<Rightarrow> Value \<times> error option" where
  "Value_Set lib (boolValue b) s = (case ParseBool s of (v, err) \<Rightarrow> (boolValue v, err))"
| "Value_Set lib (stringValue x) s = (stringValue s, None)"
| "Value_Set lib (intValue i) s = (case ParseInt lib s of (v, err) \<Rightarrow> (intValue v, err))"
| "Value_Set lib (int64Value i) s = (case ParseInt64 lib s of (v, err) \<Rightarrow> (int64Value v, err))"
| "Value_Set lib (uintValue i) s = (case ParseUint lib s of (v, err) \<Rightarrow> (uintValue v, err))"
| "Value_Set lib (uint64Value i) s = (case ParseUint64 lib s of (v, err) \<Rightarrow> (uint64Value v, err))"
| "Value_Set lib (float64Value x) s = (case ParseFloat lib s of (v, err) \<Rightarrow> (float64Value v, err))"
| "Value_Set lib (durationValue d) s =
     (case ParseDuration lib s of (v, err) \<Rightarrow> (durationValue v, err))"

text \<open>Only a bool cell implements \<open>IsBoolFlag\<close>.\<close>

fun IsBoolFlag :: "Value \<Rightarrow> bool" where
  "IsBoolFlag (boolValue b) = True"
| "IsBoolFlag v = False"

subsection \<open>The flag set\<close>

record Flag =
  Name :: string
  Usage :: string
  Value :: Value

datatype ErrorHandling = ContinueOnError | ExitOnError | PanicOnError

text \<open>
  The kinds of \<open>flagfig.go\<close> are the integer constants of its \<open>iota\<close> block, and
  \<open>flagTypes\<close> is a \<open>map[string]int\<close>: reading a missing key gives 0, that is
  \<open>intType\<close>.
\<close>

definition intType :: nat where "intType = 0"

definition stringType :: nat where "stringType = 1"

definition boolType :: nat where "boolType = 2"

definition floatType :: nat where "floatType = 3"

definition int64Type :: nat where "int64Type = 4"

definition uintType :: nat where "uintType = 5"

definition uint64Type :: nat where "uint64Type = 6"

definition durationType :: nat where "durationType = 7"

text \<open>
  \<open>FlagfigSet\<close> embeds \<open>flag.FlagSet\<close>; the record holds the fields of both.
  \<open>formal\<close> maps a name to its flag and the flag's cell; \<open>actual\<close> is the key set
  of the map of flags that have been set. \<open>configFilePaths\<close> is a slice of pointers
  to the cells of the path flags: a pointer is modelled by the name of the flag that owns
  the cell.
\<close>

record FlagfigSet =
  name :: string
  parsed :: bool
  actual :: "string set"
  formal :: "string \<rightharpoonup> Flag"
  args :: "string list"
  errorHandling :: ErrorHandling
  configFilePaths :: "string list"
  flagTypes :: "string \<rightharpoonup> nat"
  envNames :: "string \<rightharpoonup> string"

definition NewFlagfigSet :: "string \<Rightarrow> ErrorHandling \<Rightarrow> FlagfigSet" where
  "NewFlagfigSet nm eh =
     \<lparr>name = nm, parsed = False, actual = {}, formal = Map.empty, args = [],
      errorHandling = eh, configFilePaths = [], flagTypes = Map.empty,
      envNames = Map.empty\<rparr>"

text \<open>
  \<open>flag.FlagSet.Var\<close>: a name that begins with \<open>-\<close> or contains \<open>=\<close> panics, and so
  does a name that is already defined (\<open>flag redefined\<close>).
\<close>

definition FlagSet_Var :: "FlagfigSet \<Rightarrow> Value \<Rightarrow> string \<Rightarrow> string \<Rightarrow> FlagfigSet outcome" where
  "FlagSet_Var f v nm usage =
     (if take 1 nm = ''-'' then Abort (panic (''flag begins with -: '' @ nm))
      else if CHR ''='' \<in> set nm then Abort (panic (''flag contains =: '' @ nm))
      else if formal f nm \<noteq> None then Abort (panic (''flag redefined: '' @ nm))
      else Ok (f\<lparr>formal := (formal f)(nm \<mapsto> \<lparr>Name = nm, Usage = usage, Value = v\<rparr>)\<rparr>))"

text \<open>
  \<open>flag.FlagSet.Set\<close>: an unknown name is an error; otherwise the cell's \<open>Set\<close> runs,
  and only when it succeeds is the flag entered into \<open>actual\<close>.
\<close>

definition FlagSet_Set :: "strconv \<Rightarrow> FlagfigSet \<Rightarrow> string \<Rightarrow> string \<Rightarrow> FlagfigSet \<times> error option" where
  "FlagSet_Set lib f nm val =
     (case formal f nm of
        None \<Rightarrow> (f, Some (''no such flag -'' @ nm))
      | Some flag \<Rightarrow>
          (case Value_Set lib (Value flag) val of
             (v, Some err) \<Rightarrow> (f\<lparr>formal := (formal f)(nm \<mapsto> flag\<lparr>Value := v\<rparr>)\<rparr>, Some err)
           | (v, None) \<Rightarrow>
               (f\<lparr>formal := (formal f)(nm \<mapsto> flag\<lparr>Value := v\<rparr>),
                  actual := insert nm (actual f)\<rparr>, None)))"

text \<open>
  \<open>flag.FlagSet.Parse\<close>. \<open>parseOne\<close> reads one flag from the front of \<open>args\<close>:
  \<open>-name\<close>, \<open>--name\<close>, \<open>-name=value\<close>, or \<open>-name value\<close> for a flag that is not
  boolean; \<open>--\<close> and the first argument that is no flag end the flags. It returns
  whether a flag was seen, and an error. A cell is written before its error is looked at,
  and the flag enters \<open>actual\<close> only on success. What \<open>failf\<close> and \<open>usage\<close> print is
  not modelled.
\<close>

definition ErrHelp :: error where "ErrHelp = ''flag: help requested''"

text \<open>The scan for the first \<open>=\<close> starts at index 1 of the name.\<close>

definition splitValue :: "string \<Rightarrow> string \<times> bool \<times> string" where
  "splitValue nm =
     (case nm of
        [] \<Rightarrow> ([], False, [])
      | c # cs \<Rightarrow>
          (if CHR ''='' \<in> set cs
           then (c # takeWhile (\<lambda>x. x \<noteq> CHR ''='') cs, True,
                 drop 1 (dropWhile (\<lambda>x. x \<noteq> CHR ''='') cs))
           else (nm, False, [])))"

definition storeValue :: "FlagfigSet \<Rightarrow> string \<Rightarrow> Flag \<Rightarrow> Value \<times> error option \<Rightarrow>
    string \<Rightarrow> bool \<times> error option \<times> FlagfigSet" where
  "storeValue f nm flag r msg =
     (case r of
        (v, Some err) \<Rightarrow>
          (False, Some (msg @ nm @ '': '' @ err),
           f\<lparr>formal := (formal f)(nm \<mapsto> flag\<lparr>Value := v\<rparr>)\<rparr>)
      | (v, None) \<Rightarrow>
          (True, None,
           f\<lparr>formal := (formal f)(nm \<mapsto> flag\<lparr>Value := v\<rparr>),
             actual := insert nm (actual f)\<rparr>))"

definition parseOne :: "strconv \<Rightarrow> FlagfigSet \<Rightarrow> bool \<times> error option \<times> FlagfigSet" where
  "parseOne lib f =
     (case args f of
        [] \<Rightarrow> (False, None, f)
      | s # rest \<Rightarrow>
          if length s < 2 \<or> take 1 s \<noteq> ''-'' then (False, None, f)
          else
            let numMinuses = (if take 1 (drop 1 s) = ''-'' then 2 else 1 :: nat) in
            if numMinuses = 2 \<and> length s = 2 then (False, None, f\<lparr>args := rest\<rparr>)
            else
              let nm0 = drop numMinuses s in
              if length nm0 = 0 \<or> take 1 nm0 = ''-'' \<or> take 1 nm0 = ''=''
              then (False, Some (''bad flag syntax: '' @ s), f)
              else
                let f1 = f\<lparr>args := rest\<rparr> in
                (case splitValue nm0 of
                   (nm, hasValue, val) \<Rightarrow>
                     (case formal f1 nm of
                        None \<Rightarrow>
                          if nm = ''help'' \<or> nm = ''h'' then (False, Some ErrHelp, f1)
                          else (False, Some (''flag provided but not defined: -'' @ nm), f1)
                      | Some flag \<Rightarrow>
                          if IsBoolFlag (Value flag) then
                            (if hasValue
                             then storeValue f1 nm flag (Value_Set lib (Value flag) val)
                                    ''invalid boolean value for -''
                             else storeValue f1 nm flag (Value_Set lib (Value flag) ''true'')
                                    ''invalid boolean flag '')
                          else
                            (case (if \<not> hasValue \<and> 0 < length rest
                                   then (True, hd rest, f1\<lparr>args := tl rest\<rparr>)
                                   else (hasValue, val, f1)) of
                               (hasValue2, val2, f2) \<Rightarrow>
                                 if \<not> hasValue2
                                 then (False, Some (''flag needs an argument: -'' @ nm), f2)
                                 else storeValue f2 nm flag (Value_Set lib (Value flag) val2)
                                        ''invalid value for flag -''))))"

lemma storeValue_args:
  "storeValue f nm flag r msg = (seen, err, f') \<Longrightarrow> args f' = args f"
  by (auto simp: storeValue_def split: prod.splits option.splits)

lemma parseOne_seen_args:
  "parseOne lib f = (True, err, f') \<Longrightarrow> length (args f') < length (args f)"
  by (auto simp: parseOne_def Let_def split: list.splits if_splits prod.splits option.splits
           dest!: storeValue_args)

function parseLoop :: "strconv \<Rightarrow> FlagfigSet \<Rightarrow> (FlagfigSet \<times> error option) outcome" where
  "parseLoop lib f =
     (case parseOne lib f of
        (seen, err, f') \<Rightarrow>
          if seen then parseLoop lib f'
          else
            (case err of
               None \<Rightarrow> Ok (f', None)
             | Some e \<Rightarrow>
                 (case errorHandling f' of
                    ContinueOnError \<Rightarrow> Ok (f', Some e)
                  | ExitOnError \<Rightarrow> Abort (osExit (if e = ErrHelp then 0 else 2))
                  | PanicOnError \<Rightarrow> Abort (panic e))))"
  by pat_completeness auto
termination
  by (relation "measure (\<lambda>(lib, f). length (args f))") (auto dest: parseOne_seen_args [OF sym])

declare parseLoop.simps [simp del]

definition FlagSet_Parse :: "strconv \<Rightarrow> FlagfigSet \<Rightarrow> string list \<Rightarrow>
    (FlagfigSet \<times> error option) outcome" where
  "FlagSet_Parse lib f arguments = parseLoop lib (f\<lparr>parsed := True, args := arguments\<rparr>)"

subsection \<open>Registration\<close>

text \<open>
  Each typed operation records the environment name and the kind under the flag's name
  and then defines the flag with a fresh cell holding the default. The pointer it
  returns is the cell of that flag. \<open>Int\<close> is written \<open>Int_flag\<close>.
\<close>

definition Bool :: "FlagfigSet \<Rightarrow> string \<Rightarrow> bool \<Rightarrow> string \<Rightarrow> string \<Rightarrow> FlagfigSet outcome" where
  "Bool f nm defaultValue envName usage =
     FlagSet_Var (f\<lparr>flagTypes := (flagTypes f)(nm \<mapsto> boolType),
                    envNames := (envNames f)(nm \<mapsto> envName)\<rparr>)
       (boolValue defaultValue) nm usage"

definition String :: "FlagfigSet \<Rightarrow> string \<Rightarrow> string \<Rightarrow> string \<Rightarrow> string \<Rightarrow> FlagfigSet outcome" where
  "String f nm defaultValue envName usage =
     FlagSet_Var (f\<lparr>flagTypes := (flagTypes f)(nm \<mapsto> stringType),
                    envNames := (envNames f)(nm \<mapsto> envName)\<rparr>)
       (stringValue defaultValue) nm usage"

definition Int_flag :: "FlagfigSet \<Rightarrow> string \<Rightarrow> int \<Rightarrow> string \<Rightarrow> string \<Rightarrow> FlagfigSet outcome" where
  "Int_flag f nm defaultValue envName usage =
     FlagSet_Var (f\<lparr>flagTypes := (flagTypes f)(nm \<mapsto> intType),
                    envNames := (envNames f)(nm \<mapsto> envName)\<rparr>)
       (intValue defaultValue) nm usage"

definition Float64 :: "FlagfigSet \<Rightarrow> string \<Rightarrow> float64 \<Rightarrow> string \<Rightarrow> string \<Rightarrow> FlagfigSet outcome" where
  "Float64 f nm defaultValue envName usage =
     FlagSet_Var (f\<lparr>flagTypes := (flagTypes f)(nm \<mapsto> floatType),
                    envNames := (envNames f)(nm \<mapsto> envName)\<rparr>)
       (float64Value defaultValue) nm usage"

definition Int64 :: "FlagfigSet \<Rightarrow> string \<Rightarrow> int \<Rightarrow> string \<Rightarrow> string \<Rightarrow> FlagfigSet outcome" where
  "Int64 f nm defaultValue envName usage =
     FlagSet_Var (f\<lparr>flagTypes := (flagTypes f)(nm \<mapsto> int64Type),
                    envNames := (envNames f)(nm \<mapsto> envName)\<rparr>)
       (int64Value defaultValue) nm usage"

definition Uint :: "FlagfigSet \<Rightarrow> string \<Rightarrow> nat \<Rightarrow> string \<Rightarrow> string \<Rightarrow> FlagfigSet outcome" where
  "Uint f nm defaultValue envName usage =
     FlagSet_Var (f\<lparr>flagTypes := (flagTypes f)(nm \<mapsto> uintType),
                    envNames := (envNames f)(nm \<mapsto> envName)\<rparr>)
       (uintValue defaultValue) nm usage"

definition Uint64 :: "FlagfigSet \<Rightarrow> string \<Rightarrow> nat \<Rightarrow> string \<Rightarrow> string \<Rightarrow> FlagfigSet outcome" where
  "Uint64 f nm defaultValue envName usage =
     FlagSet_Var (f\<lparr>flagTypes := (flagTypes f)(nm \<mapsto> uint64Type),
                    envNames := (envNames f)(nm \<mapsto> envName)\<rparr>)
       (uint64Value defaultValue) nm usage"

definition Duration :: "FlagfigSet \<Rightarrow> string \<Rightarrow> int \<Rightarrow> string \<Rightarrow> string \<Rightarrow> FlagfigSet outcome" where
  "Duration f nm defaultValue envName usage =
     FlagSet_Var (f\<lparr>flagTypes := (flagTypes f)(nm \<mapsto> durationType),
                    envNames := (envNames f)(nm \<mapsto> envName)\<rparr>)
       (durationValue defaultValue) nm usage"

text \<open>
  \<open>AddConfigFile\<close> appends the pointer to a fresh string cell to \<open>configFilePaths\<close>
  and defines a string flag on that cell, with the empty default. It records neither a
  kind nor an environment name.
\<close>

definition AddConfigFile :: "FlagfigSet \<Rightarrow> string \<Rightarrow> string \<Rightarrow> FlagfigSet outcome" where
  "AddConfigFile f nm usage =
     FlagSet_Var (f\<lparr>configFilePaths := configFilePaths f @ [nm]\<rparr>) (stringValue []) nm usage"

text \<open>Reading through a pointer of \<open>configFilePaths\<close>, and reading a flag's cell.\<close>

definition deref :: "FlagfigSet \<Rightarrow> string \<Rightarrow> string" where
  "deref f p =
     (case formal f p of
        Some flag \<Rightarrow> (case Value flag of stringValue s \<Rightarrow> s | _ \<Rightarrow> [])
      | None \<Rightarrow> [])"

definition valueOf :: "FlagfigSet \<Rightarrow> string \<Rightarrow> Value option" where
  "valueOf f nm = map_option Value (formal f nm)"

subsection \<open>Formatting numbers: \<open>fmt.Sprintf\<close> and \<open>strings.TrimSpace\<close>\<close>

text \<open>
  The verb \<open>%.0f\<close> prints the integer nearest to the number, a tie going to the even
  one, with a minus sign for a negative number (also when the digits are \<open>0\<close>).
  \<open>%f\<close> has the default precision of six digits after the point. \<open>%18.0f\<close> pads
  the text of \<open>%.0f\<close> with spaces on the left to 18 characters.
\<close>

definition digitChar :: "nat \<Rightarrow> char" where
  "digitChar d = ''0123456789'' ! d"

fun formatNat :: "nat \<Rightarrow> string" where
  "formatNat n = (if n < 10 then [digitChar n] else formatNat (n div 10) @ [digitChar (n mod 10)])"

declare formatNat.simps [simp del]

definition roundHalfEven :: "rat \<Rightarrow> int" where
  "roundHalfEven x =
     (let n = \<lfloor>x\<rfloor>; r = x - of_int n
      in if r < 1 / 2 then n else if 1 / 2 < r then n + 1 else if even n then n else n + 1)"

definition padLeft :: "char \<Rightarrow> nat \<Rightarrow> string \<Rightarrow> string" where
  "padLeft c w s = replicate (w - length s) c @ s"

definition Sprintf_0f :: "rat \<Rightarrow> string" where
  "Sprintf_0f v = (if v < 0 then ''-'' else []) @ formatNat (nat (roundHalfEven \<bar>v\<bar>))"

definition Sprintf_f :: "rat \<Rightarrow> string" where
  "Sprintf_f v =
     (let m = nat (roundHalfEven (\<bar>v\<bar> * 1000000))
      in (if v < 0 then ''-'' else []) @ formatNat (m div 1000000) @ ''.'' @
         padLeft (CHR ''0'') 6 (formatNat (m mod 1000000)))"

definition Sprintf_18_0f_ns :: "rat \<Rightarrow> string" where
  "Sprintf_18_0f_ns v = padLeft (CHR '' '') 18 (Sprintf_0f v) @ ''ns''"

definition isSpace :: "char \<Rightarrow> bool" where
  "isSpace c = (c \<in> set [CHR '' '', CHR 0x09, CHR 0x0A, CHR 0x0B, CHR 0x0C, CHR 0x0D])"

definition TrimSpace :: "string \<Rightarrow> string" where
  "TrimSpace s = rev (dropWhile isSpace (rev (dropWhile isSpace s)))"

subsection \<open>The process environment, the file system and JSON\<close>

text \<open>
  What \<open>json.Unmarshal\<close> stores in a \<open>map[string]interface{}\<close>: \<open>bool\<close>,
  \<open>string\<close>, \<open>float64\<close>, \<open>[]interface{}\<close>, \<open>map[string]interface{}\<close> or
  \<open>nil\<close>. It never stores an \<open>int\<close>, \<open>int64\<close>, \<open>uint\<close> or \<open>uint64\<close>, so those
  arms of the type switch in \<open>readConfigurationFiles\<close> cannot be reached and have no
  constructor here.
\<close>

datatype jvalue = JBool bool | JString string | JNumber rat | JArray | JObject | JNull

text \<open>
  \<open>Getenv\<close> is \<open>os.Getenv\<close> (the empty string for a variable that is not set),
  \<open>ReadFile\<close> is \<open>ioutil.ReadFile\<close>, \<open>Unmarshal\<close> is \<open>json.Unmarshal\<close> into a
  \<open>map[string]interface{}\<close>. Go ranges over a map in an order it does not specify: the
  decoded object is its list of entries in the order the \<open>range\<close> loop meets them.
\<close>

record world =
  Getenv :: "string \<Rightarrow> string"
  ReadFile :: "string \<Rightarrow> error + string"
  Unmarshal :: "string \<Rightarrow> error + (string \<times> jvalue) list"

subsection \<open>\<open>readConfigurationFiles\<close>\<close>

definition flagType :: "FlagfigSet \<Rightarrow> string \<Rightarrow> nat" where
  "flagType f key = (case flagTypes f key of Some t \<Rightarrow> t | None \<Rightarrow> 0)"

text \<open>\<open>_ = f.FlagSet.Set(key, s)\<close>: the error is dropped.\<close>

definition setDropErr :: "strconv \<Rightarrow> FlagfigSet \<Rightarrow> string \<Rightarrow> string \<Rightarrow> FlagfigSet" where
  "setDropErr lib f key s = fst (FlagSet_Set lib f key s)"

text \<open>The body of the loop over the entries of one decoded file.\<close>

fun processEntry :: "strconv \<Rightarrow> string list \<Rightarrow> FlagfigSet \<Rightarrow> string \<times> jvalue \<Rightarrow> FlagfigSet outcome" where
  "processEntry lib unvisitedFlags f (key, val) =
     (if key \<in> set unvisitedFlags then
        (case val of
           JBool v \<Rightarrow>
             (if v then Ok (setDropErr lib f key ''true'')
              else Ok (setDropErr lib f key ''false''))
         | JString v \<Rightarrow> Ok (setDropErr lib f key v)
         | JNumber v \<Rightarrow>
             (let t = flagType f key in
              if t = intType then Ok (setDropErr lib f key (Sprintf_0f v))
              else if t = uintType then Ok (setDropErr lib f key (Sprintf_0f v))
              else if t = int64Type then Ok (setDropErr lib f key (Sprintf_0f v))
              else if t = uint64Type then Ok (setDropErr lib f key (Sprintf_0f v))
              else if t = floatType then Ok (setDropErr lib f key (Sprintf_f v))
              else if t = durationType
              then Ok (setDropErr lib f key (TrimSpace (Sprintf_18_0f_ns v)))
              else Ok f)
         | _ \<Rightarrow> Abort (logFatal ''Unsupported Config file type''))
      else Ok f)"

fun processEntries :: "strconv \<Rightarrow> string list \<Rightarrow> FlagfigSet \<Rightarrow> (string \<times> jvalue) list \<Rightarrow>
    FlagfigSet outcome" where
  "processEntries lib unvisitedFlags f [] = Ok f"
| "processEntries lib unvisitedFlags f (e # es) =
     (case processEntry lib unvisitedFlags f e of
        Ok f' \<Rightarrow> processEntries lib unvisitedFlags f' es
      | Abort a \<Rightarrow> Abort a)"

definition decodeLogLine :: "string \<Rightarrow> error \<Rightarrow> string" where
  "decodeLogLine filePath err =
     ''Unable to JSON Decode file: '' @ [CHR 0x27] @ filePath @ [CHR 0x27] @ '' because: '' @ err"

text \<open>
  The loop over \<open>configFilePaths\<close>. The state is the flag set and the lines written by
  \<open>log.Printf\<close> so far. The path is read through the pointer when its turn comes.
\<close>

fun readFiles :: "world \<Rightarrow> strconv \<Rightarrow> string list \<Rightarrow> string list \<Rightarrow> FlagfigSet \<times> string list \<Rightarrow>
    (FlagfigSet \<times> string list) outcome" where
  "readFiles w lib unvisitedFlags [] (f, lg) = Ok (f, lg)"
| "readFiles w lib unvisitedFlags (p # ps) (f, lg) =
     (let filePath = deref f p in
      if length filePath \<noteq> 0 then
        (case ReadFile w filePath of
           Inl err \<Rightarrow> Abort (panic err)
         | Inr dat \<Rightarrow>
             (case Unmarshal w dat of
                Inl err \<Rightarrow>
                  readFiles w lib unvisitedFlags ps (f, lg @ [decodeLogLine filePath err])
              | Inr jsonDat \<Rightarrow>
                  (case processEntries lib unvisitedFlags f jsonDat of
                     Ok f' \<Rightarrow> readFiles w lib unvisitedFlags ps (f', lg)
                   | Abort a \<Rightarrow> Abort a)))
      else readFiles w lib unvisitedFlags ps (f, lg))"

text \<open>
  The named result \<open>err\<close> of \<open>readConfigurationFiles\<close> is never assigned: the
  \<open>err\<close> of \<open>dat, err := ioutil.ReadFile(...)\<close> is a new variable of the inner block.
  The function returns \<open>nil\<close> whenever it returns.
\<close>

definition readConfigurationFiles :: "world \<Rightarrow> strconv \<Rightarrow> string list \<Rightarrow> FlagfigSet \<Rightarrow>
    (error option \<times> FlagfigSet \<times> string list) outcome" where
  "readConfigurationFiles w lib unvisitedFlags f =
     (case readFiles w lib unvisitedFlags (configFilePaths f) (f, []) of
        Ok (f', lg) \<Rightarrow> Ok (None, f', lg)
      | Abort a \<Rightarrow> Abort a)"

subsection \<open>\<open>Collate\<close> and \<open>Parse\<close>\<close>

text \<open>
  \<open>Collate\<close> collects the flags that \<open>Visit\<close> does not report into the map
  \<open>unVisitedFlags\<close>. The order in which Go ranges over that map is not specified:
  \<open>ord\<close> is the order in which the names come out, and the map's keys are the names
  of \<open>ord\<close> that are defined and not in \<open>actual\<close>.
\<close>

definition unVisitedFlags :: "string list \<Rightarrow> FlagfigSet \<Rightarrow> string list" where
  "unVisitedFlags ord f = filter (\<lambda>nm. formal f nm \<noteq> None \<and> nm \<notin> actual f) ord"

text \<open>The loop over the environment: \<open>err\<close> is overwritten by every \<open>Set\<close>.\<close>

fun envLoop :: "world \<Rightarrow> strconv \<Rightarrow> string list \<Rightarrow> FlagfigSet \<times> error option \<Rightarrow>
    FlagfigSet \<times> error option" where
  "envLoop w lib [] (f, err) = (f, err)"
| "envLoop w lib (nm # nms) (f, err) =
     (case envNames f nm of
        Some envName \<Rightarrow>
          (let envVal = Getenv w envName in
           if length envVal \<noteq> 0 then envLoop w lib nms (FlagSet_Set lib f nm envVal)
           else envLoop w lib nms (f, err))
      | None \<Rightarrow> envLoop w lib nms (f, err))"

definition Collate :: "world \<Rightarrow> strconv \<Rightarrow> string list \<Rightarrow> FlagfigSet \<Rightarrow>
    (error option \<times> FlagfigSet \<times> string list) outcome" where
  "Collate w lib ord f =
     (let unv = unVisitedFlags ord f in
      case readConfigurationFiles w lib unv f of
        Abort a \<Rightarrow> Abort a
      | Ok (Some e, f', lg) \<Rightarrow> Ok (Some e, f', lg)
      | Ok (None, f', lg) \<Rightarrow>
          (case envLoop w lib unv (f', None) of (f'', err) \<Rightarrow> Ok (err, f'', lg)))"

definition Parse :: "world \<Rightarrow> strconv \<Rightarrow> string list \<Rightarrow> FlagfigSet \<Rightarrow> string list \<Rightarrow>
    (error option \<times> FlagfigSet \<times> string list) outcome" where
  "Parse w lib ord f arguments =
     (case FlagSet_Parse lib f arguments of
        Abort a \<Rightarrow> Abort a
      | Ok (f1, Some e) \<Rightarrow> Ok (Some e, f1, [])
      | Ok (f1, None) \<Rightarrow> Collate w lib ord f1)"

subsection \<open>An instance of the conversions, for running examples\<close>

text \<open>
  The theorems below hold for every \<open>strconv\<close>. To run the model on concrete inputs,
  \<open>decimalConv\<close> reads plain decimal text.
  \<^item> Integer kinds: an optional sign (none for the unsigned kinds), then \<open>0\<close> or
    digits that do not begin with \<open>0\<close>. On such text, and on text without any digit,
    it returns what \<open>strconv\<close> returns where \<open>int\<close> has 64 bits.
  \<^item> Float: the same, then optionally a point and at least one digit, the value taken
    exactly. It returns what \<open>strconv.ParseFloat\<close> returns when that value is itself
    a \<open>float64\<close>.
  \<^item> Duration: an optional sign, digits, and the unit \<open>ns\<close>. It returns what
    \<open>time.ParseDuration\<close> returns below \<open>2 ^ 63\<close> nanoseconds.

  Any other text it reports as an error, which is not always Go's answer (Go also reads
  base prefixes, exponents, \<open>inf\<close>, other units); the examples use no such text.
\<close>

definition digitVal :: "char \<Rightarrow> nat option" where
  "digitVal c =
     map_of [(CHR ''0'', 0), (CHR ''1'', 1), (CHR ''2'', 2), (CHR ''3'', 3), (CHR ''4'', 4),
             (CHR ''5'', 5), (CHR ''6'', 6), (CHR ''7'', 7), (CHR ''8'', 8), (CHR ''9'', 9)] c"

fun readDigits :: "string \<Rightarrow> nat \<Rightarrow> nat option" where
  "readDigits [] acc = Some acc"
| "readDigits (c # cs) acc =
     (case digitVal c of None \<Rightarrow> None | Some d \<Rightarrow> readDigits cs (10 * acc + d))"

definition readNat :: "string \<Rightarrow> nat option" where
  "readNat s = (if s = [] then None else readDigits s 0)"

definition readCanonical :: "string \<Rightarrow> nat option" where
  "readCanonical s = (if 1 < length s \<and> take 1 s = ''0'' then None else readNat s)"

definition splitSign :: "string \<Rightarrow> bool \<times> string" where
  "splitSign s =
     (if take 1 s = ''-'' then (True, drop 1 s)
      else if take 1 s = ''+'' then (False, drop 1 s)
      else (False, s))"

definition syntaxError :: error where "syntaxError = ''invalid syntax''"

definition rangeError :: error where "rangeError = ''value out of range''"

definition decimalInt :: "nat \<Rightarrow> string \<Rightarrow> int \<times> error option" where
  "decimalInt bits s =
     (case splitSign s of
        (neg, digits) \<Rightarrow>
          (case readCanonical digits of
             None \<Rightarrow> (0, Some syntaxError)
           | Some n \<Rightarrow>
               if \<not> neg \<and> 2 ^ (bits - 1) \<le> n then (2 ^ (bits - 1) - 1, Some rangeError)
               else if neg \<and> 2 ^ (bits - 1) < n then (- (2 ^ (bits - 1)), Some rangeError)
               else (if neg then - int n else int n, None)))"

definition decimalUint :: "nat \<Rightarrow> string \<Rightarrow> nat \<times> error option" where
  "decimalUint bits s =
     (case readCanonical s of
        None \<Rightarrow> (0, Some syntaxError)
      | Some n \<Rightarrow> if 2 ^ bits \<le> n then (2 ^ bits - 1, Some rangeError) else (n, None))"

definition decimalFloat :: "string \<Rightarrow> float64 \<times> error option" where
  "decimalFloat s =
     (case splitSign s of
        (neg, body) \<Rightarrow>
          (let ip = takeWhile (\<lambda>c. c \<noteq> CHR ''.'') body;
               fp = drop 1 (dropWhile (\<lambda>c. c \<noteq> CHR ''.'') body)
           in case (readCanonical ip,
                    if CHR ''.'' \<in> set body then readNat fp else Some 0) of
                (Some i, Some k) \<Rightarrow>
                  (let q = of_nat i + of_nat k / 10 ^ length fp
                   in (Finite (if neg then - q else q), None))
              | _ \<Rightarrow> (Finite 0, Some syntaxError)))"

definition decimalDuration :: "string \<Rightarrow> int \<times> error option" where
  "decimalDuration s =
     (case splitSign s of
        (neg, body) \<Rightarrow>
          (if 2 < length body \<and> drop (length body - 2) body = ''ns'' then
             (case readNat (take (length body - 2) body) of
                None \<Rightarrow> (0, Some ''time: invalid duration'')
              | Some n \<Rightarrow>
                  if 2 ^ 63 \<le> n then (0, Some ''time: invalid duration'')
                  else (if neg then - int n else int n, None))
           else (0, Some ''time: invalid duration'')))"

definition decimalConv :: strconv where
  "decimalConv =
     \<lparr>ParseInt = decimalInt 64, ParseInt64 = decimalInt 64,
      ParseUint = decimalUint 64, ParseUint64 = decimalUint 64,
      ParseFloat = decimalFloat, ParseDuration = decimalDuration\<rparr>"

subsection \<open>A program: registrations, then \<open>Parse\<close>\<close>

text \<open>
  A caller registers its settings and configuration files one after the other on a set
  made by \<open>NewFlagfigSet\<close> and then calls \<open>Parse\<close>. A \<open>decl\<close> is one such call
  with its arguments (name, default, environment name, usage).
\<close>

datatype decl =
    DeclBool string bool string string
  | DeclString string string string string
  | DeclInt string int string string
  | DeclFloat64 string float64 string string
  | DeclInt64 string int string string
  | DeclUint string nat string string
  | DeclUint64 string nat string string
  | DeclDuration string int string string
  | DeclConfigFile string string

fun register :: "FlagfigSet \<Rightarrow> decl \<Rightarrow> FlagfigSet outcome" where
  "register f (DeclBool nm d e u) = Bool f nm d e u"
| "register f (DeclString nm d e u) = String f nm d e u"
| "register f (DeclInt nm d e u) = Int_flag f nm d e u"
| "register f (DeclFloat64 nm d e u) = Float64 f nm d e u"
| "register f (DeclInt64 nm d e u) = Int64 f nm d e u"
| "register f (DeclUint nm d e u) = Uint f nm d e u"
| "register f (DeclUint64 nm d e u) = Uint64 f nm d e u"
| "register f (DeclDuration nm d e u) = Duration f nm d e u"
| "register f (DeclConfigFile nm u) = AddConfigFile f nm u"

fun registerAll :: "FlagfigSet \<Rightarrow> decl list \<Rightarrow> FlagfigSet outcome" where
  "registerAll f [] = Ok f"
| "registerAll f (d # ds) =
     (case register f d of Ok f' \<Rightarrow> registerAll f' ds | Abort a \<Rightarrow> Abort a)"

fun declName :: "decl \<Rightarrow> string" where
  "declName (DeclBool nm d e u) = nm"
| "declName (DeclString nm d e u) = nm"
| "declName (DeclInt nm d e u) = nm"
| "declName (DeclFloat64 nm d e u) = nm"
| "declName (DeclInt64 nm d e u) = nm"
| "declName (DeclUint nm d e u) = nm"
| "declName (DeclUint64 nm d e u) = nm"
| "declName (DeclDuration nm d e u) = nm"
| "declName (DeclConfigFile nm u) = nm"

fun declDefault :: "decl \<Rightarrow> Value" where
  "declDefault (DeclBool nm d e u) = boolValue d"
| "declDefault (DeclString nm d e u) = stringValue d"
| "declDefault (DeclInt nm d e u) = intValue d"
| "declDefault (DeclFloat64 nm d e u) = float64Value d"
| "declDefault (DeclInt64 nm d e u) = int64Value d"
| "declDefault (DeclUint nm d e u) = uintValue d"
| "declDefault (DeclUint64 nm d e u) = uint64Value d"
| "declDefault (DeclDuration nm d e u) = durationValue d"
| "declDefault (DeclConfigFile nm u) = stringValue []"

definition run :: "world \<Rightarrow> strconv \<Rightarrow> string list \<Rightarrow> decl list \<Rightarrow> string list \<Rightarrow>
    (error option \<times> FlagfigSet \<times> string list) outcome" where
  "run w lib ord decls arguments =
     (case registerAll (NewFlagfigSet ''prog'' ContinueOnError) decls of
        Ok f \<Rightarrow> Parse w lib ord f arguments
      | Abort a \<Rightarrow> Abort a)"

subsection \<open>Observing a result\<close>

text \<open>
  The value a setting holds after a call that returned, the error the call returned,
  and the lines it logged. A call that panicked or exited leaves nothing to read.
\<close>

definition resolved :: "(error option \<times> FlagfigSet \<times> string list) outcome \<Rightarrow> string \<Rightarrow> Value option" where
  "resolved r nm = (case r of Ok (err, f, lg) \<Rightarrow> valueOf f nm | Abort a \<Rightarrow> None)"

definition returned :: "(error option \<times> FlagfigSet \<times> string list) outcome \<Rightarrow> error option option" where
  "returned r = (case r of Ok (err, f, lg) \<Rightarrow> Some err | Abort a \<Rightarrow> None)"

definition logged :: "(error option \<times> FlagfigSet \<times> string list) outcome \<Rightarrow> string list option" where
  "logged r = (case r of Ok (err, f, lg) \<Rightarrow> Some lg | Abort a \<Rightarrow> None)"

text \<open>The kind of a cell, as the constant that the registration of that cell records.\<close>

fun kindOf :: "Value \<Rightarrow> nat" where
  "kindOf (boolValue b) = boolType"
| "kindOf (stringValue s) = stringType"
| "kindOf (intValue i) = intType"
| "kindOf (int64Value i) = int64Type"
| "kindOf (uintValue n) = uintType"
| "kindOf (uint64Value n) = uint64Type"
| "kindOf (float64Value x) = floatType"
| "kindOf (durationValue d) = durationType"

text \<open>
  The text that the type switch of \<open>readConfigurationFiles\<close> hands to \<open>Set\<close> for a
  JSON value and a recorded kind; \<open>None\<close> where no arm sets anything.
\<close>

fun fileText :: "nat \<Rightarrow> jvalue \<Rightarrow> string option" where
  "fileText t (JBool v) = Some (if v then ''true'' else ''false'')"
| "fileText t (JString v) = Some v"
| "fileText t (JNumber v) =
     (if t = intType \<or> t = uintType \<or> t = int64Type \<or> t = uint64Type then Some (Sprintf_0f v)
      else if t = floatType then Some (Sprintf_f v)
      else if t = durationType then Some (TrimSpace (Sprintf_18_0f_ns v))
      else None)"
| "fileText t v = None"

fun unsupported :: "jvalue \<Rightarrow> bool" where
  "unsupported JArray = True"
| "unsupported JObject = True"
| "unsupported JNull = True"
| "unsupported v = False"

text \<open>
  The decoded files that the loop of \<open>readConfigurationFiles\<close> processes, in order:
  the same walk as \<open>readFiles\<close>, collecting each object that was decoded.
\<close>

fun filesRead :: "world \<Rightarrow> strconv \<Rightarrow> string list \<Rightarrow> string list \<Rightarrow> FlagfigSet \<Rightarrow>
    (string \<times> jvalue) list list" where
  "filesRead w lib unvisitedFlags [] f = []"
| "filesRead w lib unvisitedFlags (p # ps) f =
     (let filePath = deref f p in
      if length filePath \<noteq> 0 then
        (case ReadFile w filePath of
           Inl err \<Rightarrow> []
         | Inr dat \<Rightarrow>
             (case Unmarshal w dat of
                Inl err \<Rightarrow> filesRead w lib unvisitedFlags ps f
              | Inr jsonDat \<Rightarrow>
                  jsonDat #
                  (case processEntries lib unvisitedFlags f jsonDat of
                     Ok f' \<Rightarrow> filesRead w lib unvisitedFlags ps f'
                   | Abort a \<Rightarrow> [])))
      else filesRead w lib unvisitedFlags ps f)"

text \<open>The kind of the cell of every flag, which no \<open>Set\<close> changes.\<close>

definition cellKind :: "FlagfigSet \<Rightarrow> string \<Rightarrow> nat option" where
  "cellKind f n = map_option (\<lambda>fl. kindOf (Value fl)) (formal f n)"

text \<open>
  The value that a string denotes for a cell: the conversion of the cell's kind accepts
  the string and returns that value.
\<close>

definition denotes :: "strconv \<Rightarrow> string \<Rightarrow> Value \<Rightarrow> bool" where
  "denotes lib s v = (Value_Set lib v s = (v, None))"

subsection \<open>The earlier version of the package\<close>

text \<open>
  File \<open>flagfig/flagfig.go\<close> is an earlier version of the package, with string
  settings only. Its set keeps the cells in the map \<open>stringValues\<close>. \<open>String\<close>
  allocates a cell and records the environment name only for a name that has no cell yet;
  in either case it then calls \<open>StringVar\<close> on the cell of the name, which stores the
  default in the cell and defines the flag through \<open>flag.FlagSet.Var\<close>.
\<close>

record FlagfigSet_old =
  formal_old :: "string \<rightharpoonup> Flag"
  stringValues :: "string \<rightharpoonup> string"
  envNames_old :: "string \<rightharpoonup> string"

definition String_old :: "FlagfigSet_old \<Rightarrow> string \<Rightarrow> string \<Rightarrow> string \<Rightarrow> string \<Rightarrow>
    FlagfigSet_old outcome" where
  "String_old f nm defaultValue envName usage =
     (let f1 = (if stringValues f nm = None
                then f\<lparr>stringValues := (stringValues f)(nm \<mapsto> []),
                       envNames_old := (envNames_old f)(nm \<mapsto> envName)\<rparr>
                else f);
          f2 = f1\<lparr>stringValues := (stringValues f1)(nm \<mapsto> defaultValue)\<rparr>
      in if take 1 nm = ''-'' then Abort (panic (''flag begins with -: '' @ nm))
         else if CHR ''='' \<in> set nm then Abort (panic (''flag contains =: '' @ nm))
         else if formal_old f2 nm \<noteq> None then Abort (panic (''flag redefined: '' @ nm))
         else Ok (f2\<lparr>formal_old := (formal_old f2)(nm \<mapsto>
                     \<lparr>Name = nm, Usage = usage, Value = stringValue defaultValue\<rparr>)\<rparr>))"

subsection \<open>Example programs\<close>

text \<open>
  One setting \<open>name\<close> and two configuration files; \<open>nameSet\<close> is the set after
  the three registrations of \<open>nameDecls\<close>. The file system holds \<open>a.json\<close>
  and \<open>b.json\<close>, both with a string for \<open>name\<close>, \<open>other.json\<close> without the key,
  \<open>bad.json\<close> that does not decode, \<open>num.json\<close> with a number, \<open>bool.json\<close> with a
  bool and \<open>nested.json\<close> with an object for \<open>name\<close>. No environment variable is set.
\<close>

definition fileWorld :: world where
  "fileWorld =
     \<lparr>Getenv = (\<lambda>n. []),
      ReadFile = (\<lambda>p. if p \<in> set [''a.json'', ''b.json'', ''other.json'', ''bad.json'',
                                    ''num.json'', ''bool.json'', ''nested.json'']
                        then Inr p else Inl (''open '' @ p @ '': no such file or directory'')),
      Unmarshal = (\<lambda>d.
        if d = ''a.json'' then Inr [(''name'', JString ''from-a'')]
        else if d = ''b.json'' then Inr [(''name'', JString ''from-b'')]
        else if d = ''other.json'' then Inr [(''other'', JString ''x'')]
        else if d = ''num.json'' then Inr [(''name'', JNumber 5)]
        else if d = ''bool.json'' then Inr [(''name'', JBool True)]
        else if d = ''nested.json'' then Inr [(''name'', JObject)]
        else Inl ''invalid character'')\<rparr>"

definition nameDecls :: "decl list" where
  "nameDecls =
     [DeclConfigFile ''first'' ''first configuration file'',
      DeclConfigFile ''second'' ''second configuration file'',
      DeclString ''name'' ''default'' [] ''a name'']"

definition nameOrder :: "string list" where
  "nameOrder = [''name'', ''second'', ''first'']"

definition nameSet :: FlagfigSet where
  "nameSet =
     \<lparr>name = ''prog'', parsed = False, actual = {},
      formal = [''first'' \<mapsto> \<lparr>Name = ''first'', Usage = ''first configuration file'',
                                Value = stringValue []\<rparr>,
                ''second'' \<mapsto> \<lparr>Name = ''second'', Usage = ''second configuration file'',
                                 Value = stringValue []\<rparr>,
                ''name'' \<mapsto> \<lparr>Name = ''name'', Usage = ''a name'',
                               Value = stringValue ''default''\<rparr>],
      args = [], errorHandling = ContinueOnError, configFilePaths = [''first'', ''second''],
      flagTypes = [''name'' \<mapsto> stringType], envNames = [''name'' \<mapsto> []]\<rparr>"

text \<open>
  Settings that read the environment: \<open>count\<close> from \<open>COUNT\<close>, which holds \<open>abc\<close>,
  and \<open>host\<close> from \<open>HOST_ENV\<close>, which holds \<open>db.local\<close>. The one file \<open>cfg.json\<close>
  has a string for \<open>host\<close>.
\<close>

definition envWorld :: world where
  "envWorld =
     \<lparr>Getenv = (\<lambda>n. if n = ''HOST_ENV'' then ''db.local''
                      else if n = ''COUNT'' then ''abc'' else []),
      ReadFile = (\<lambda>p. if p = ''cfg.json'' then Inr p
                        else Inl (''open '' @ p @ '': no such file or directory'')),
      Unmarshal = (\<lambda>d. if d = ''cfg.json'' then Inr [(''host'', JString ''filehost'')]
                        else Inl ''invalid character'')\<rparr>"

definition hostSet :: FlagfigSet where
  "hostSet =
     \<lparr>name = ''prog'', parsed = True, actual = {''config''},
      formal = [''host'' \<mapsto> \<lparr>Name = ''host'', Usage = ''a host'', Value = stringValue []\<rparr>,
                ''count'' \<mapsto> \<lparr>Name = ''count'', Usage = ''a count'', Value = intValue 1\<rparr>,
                ''config'' \<mapsto> \<lparr>Name = ''config'', Usage = ''configuration file'',
                                 Value = stringValue ''cfg.json''\<rparr>],
      args = [], errorHandling = ContinueOnError, configFilePaths = [''config''],
      flagTypes = [''host'' \<mapsto> stringType, ''count'' \<mapsto> intType],
      envNames = [''host'' \<mapsto> ''HOST_ENV'', ''count'' \<mapsto> ''COUNT'']\<rparr>"

text \<open>
  \<open>hostSet\<close> is that program's set after \<open>-config=cfg.json\<close> was parsed,
  \<open>hostReg\<close> the set before. Two more worlds with the same file: in
  \<open>countWorld\<close> only \<open>COUNT\<close> is set (to \<open>abc\<close>), in \<open>quietWorld\<close> nothing is.
\<close>

definition hostReg :: FlagfigSet where
  "hostReg =
     \<lparr>name = ''prog'', parsed = False, actual = {},
      formal = [''host'' \<mapsto> \<lparr>Name = ''host'', Usage = ''a host'', Value = stringValue []\<rparr>,
                ''count'' \<mapsto> \<lparr>Name = ''count'', Usage = ''a count'', Value = intValue 1\<rparr>,
                ''config'' \<mapsto> \<lparr>Name = ''config'', Usage = ''configuration file'',
                                 Value = stringValue []\<rparr>],
      args = [], errorHandling = ContinueOnError, configFilePaths = [''config''],
      flagTypes = [''host'' \<mapsto> stringType, ''count'' \<mapsto> intType],
      envNames = [''host'' \<mapsto> ''HOST_ENV'', ''count'' \<mapsto> ''COUNT'']\<rparr>"

definition countWorld :: world where
  "countWorld = envWorld\<lparr>Getenv := (\<lambda>n. if n = ''COUNT'' then ''abc'' else [])\<rparr>"

definition quietWorld :: world where
  "quietWorld = envWorld\<lparr>Getenv := (\<lambda>n. [])\<rparr>"

text \<open>
  A Duration setting \<open>timeout\<close> and a Float64 setting \<open>ratio\<close>, with one
  configuration file that holds 30000000000 for the first and \<open>2 ^ -21\<close>, written
  \<open>4.76837158203125e-07\<close>, for the second. \<open>timeoutSet\<close> is a set with the
  Duration setting alone.
\<close>

definition numberWorld :: world where
  "numberWorld =
     \<lparr>Getenv = (\<lambda>n. []),
      ReadFile = (\<lambda>p. if p = ''numbers.json'' then Inr p
                        else Inl (''open '' @ p @ '': no such file or directory'')),
      Unmarshal = (\<lambda>d. if d = ''numbers.json''
                        then Inr [(''timeout'', JNumber 30000000000),
                                  (''ratio'', JNumber (1 / 2097152))]
                        else Inl ''invalid character'')\<rparr>"

definition numberDecls :: "decl list" where
  "numberDecls =
     [DeclConfigFile ''config'' ''configuration file'',
      DeclDuration ''timeout'' 1 [] ''a duration'',
      DeclFloat64 ''ratio'' (Finite 1) [] ''a ratio'']"

definition timeoutSet :: FlagfigSet where
  "timeoutSet =
     \<lparr>name = ''prog'', parsed = False, actual = {},
      formal = [''timeout'' \<mapsto> \<lparr>Name = ''timeout'', Usage = ''a duration'',
                                  Value = durationValue 1\<rparr>],
      args = [], errorHandling = ContinueOnError, configFilePaths = [],
      flagTypes = [''timeout'' \<mapsto> durationType], envNames = [''timeout'' \<mapsto> []]\<rparr>"

text \<open>
  A Float64 setting \<open>ratio\<close> and a String setting \<open>name\<close> with two configuration
  files: \<open>half.json\<close> holds \<open>0.5\<close> and \<open>from-a\<close> for them, \<open>tiny.json\<close> holds
  \<open>2 ^ -21\<close>, written \<open>4.76837158203125e-07\<close>, and \<open>from-b\<close>. No environment
  variable is set.
\<close>

definition ratioWorld :: world where
  "ratioWorld =
     \<lparr>Getenv = (\<lambda>n. []),
      ReadFile = (\<lambda>p. if p \<in> set [''half.json'', ''tiny.json''] then Inr p
                        else Inl (''open '' @ p @ '': no such file or directory'')),
      Unmarshal = (\<lambda>d.
        if d = ''half.json''
        then Inr [(''ratio'', JNumber (1 / 2)), (''name'', JString ''from-a'')]
        else if d = ''tiny.json''
        then Inr [(''ratio'', JNumber (1 / 2097152)), (''name'', JString ''from-b'')]
        else Inl ''invalid character'')\<rparr>"

definition ratioDecls :: "decl list" where
  "ratioDecls =
     [DeclConfigFile ''first'' ''first configuration file'',
      DeclConfigFile ''second'' ''second configuration file'',
      DeclFloat64 ''ratio'' (Finite 1) [] ''a ratio'',
      DeclString ''name'' ''default'' [] ''a name'']"

definition ratioOrder :: "string list" where
  "ratioOrder = [''name'', ''second'', ''ratio'', ''first'']"

section \<open>Properties\<close>

subsection \<open>The typed cells and \<open>FlagSet.Set\<close>\<close>

lemma Value_Set_kind: "kindOf (fst (Value_Set lib v s)) = kindOf v"
  by (cases v) (auto split: prod.splits)

lemma Value_Set_cong: "kindOf v = kindOf v' \<Longrightarrow> Value_Set lib v s = Value_Set lib v' s"
  by (cases v; cases v')
     (simp_all add: intType_def stringType_def boolType_def floatType_def int64Type_def
        uintType_def uint64Type_def durationType_def)

lemma Value_Set_twice:
  "Value_Set lib (fst (Value_Set lib v s)) s' = Value_Set lib v s'"
  by (rule Value_Set_cong) (rule Value_Set_kind)

lemma FlagSet_Set_formal:
  "formal (fst (FlagSet_Set lib f k s)) =
     (case formal f k of
        None \<Rightarrow> formal f
      | Some fl \<Rightarrow> (formal f)(k \<mapsto> fl\<lparr>Value := fst (Value_Set lib (Value fl) s)\<rparr>))"
  by (auto simp: FlagSet_Set_def split: option.splits prod.splits)

lemma FlagSet_Set_err:
  "snd (FlagSet_Set lib f k s) =
     (case formal f k of
        None \<Rightarrow> Some (''no such flag -'' @ k)
      | Some fl \<Rightarrow> snd (Value_Set lib (Value fl) s))"
  by (auto simp: FlagSet_Set_def split: option.splits prod.splits)

lemma FlagSet_Set_fields:
  "envNames (fst (FlagSet_Set lib f k s)) = envNames f"
  "flagTypes (fst (FlagSet_Set lib f k s)) = flagTypes f"
  "configFilePaths (fst (FlagSet_Set lib f k s)) = configFilePaths f"
  by (auto simp: FlagSet_Set_def split: option.splits prod.splits)

lemma FlagSet_Set_other:
  "n \<noteq> k \<Longrightarrow> formal (fst (FlagSet_Set lib f k s)) n = formal f n"
  by (simp add: FlagSet_Set_formal split: option.splits)

lemma FlagSet_Set_cellKind: "cellKind (fst (FlagSet_Set lib f k s)) = cellKind f"
  by (rule ext) (auto simp: cellKind_def FlagSet_Set_formal Value_Set_kind split: option.splits)

lemma cellKind_Value_Set:
  assumes "cellKind f' n = cellKind f n" "formal f n = Some fl" "formal f' n = Some fl'"
  shows "Value_Set lib (Value fl') s = Value_Set lib (Value fl) s"
  using assms by (auto simp: cellKind_def intro: Value_Set_cong)

subsection \<open>The loops over files\<close>

lemma setDropErr_simps:
  "envNames (setDropErr lib f k s) = envNames f"
  "flagTypes (setDropErr lib f k s) = flagTypes f"
  "configFilePaths (setDropErr lib f k s) = configFilePaths f"
  "cellKind (setDropErr lib f k s) = cellKind f"
  "n \<noteq> k \<Longrightarrow> formal (setDropErr lib f k s) n = formal f n"
  by (simp_all add: setDropErr_def FlagSet_Set_fields FlagSet_Set_cellKind FlagSet_Set_other)

lemma setDropErr_flagType: "flagType (setDropErr lib f k s) n = flagType f n"
  by (simp add: flagType_def setDropErr_simps)

lemma setDropErr_value:
  "formal f k = Some fl \<Longrightarrow>
   valueOf (setDropErr lib f k s) k = Some (fst (Value_Set lib (Value fl) s))"
  by (simp add: setDropErr_def valueOf_def FlagSet_Set_formal)

lemma processEntry_unvisited:
  "key \<in> set unv \<Longrightarrow>
   processEntry lib unv f (key, v) =
     (if unsupported v then Abort (logFatal ''Unsupported Config file type'')
      else case fileText (flagType f key) v of
             Some txt \<Rightarrow> Ok (setDropErr lib f key txt)
           | None \<Rightarrow> Ok f)"
  by (cases v) (auto simp: Let_def)

lemma processEntry_visited: "key \<notin> set unv \<Longrightarrow> processEntry lib unv f (key, v) = Ok f"
  by simp

lemma processEntry_cases:
  assumes "processEntry lib unv f (key, v) = Ok f'"
  shows "f' = f \<or> (key \<in> set unv \<and> (\<exists>txt. f' = setDropErr lib f key txt))"
proof (cases "key \<in> set unv")
  case True
  with assms show ?thesis
    by (auto simp: processEntry_unvisited simp del: processEntry.simps
             split: if_splits option.splits)
next
  case False
  with assms show ?thesis by simp
qed

lemma processEntry_keeps:
  assumes "processEntry lib unv f e = Ok f'"
  shows "envNames f' = envNames f" "flagTypes f' = flagTypes f"
    "configFilePaths f' = configFilePaths f" "cellKind f' = cellKind f"
  using processEntry_cases [of lib unv f "fst e" "snd e" f'] assms
  by (auto simp: setDropErr_simps)

lemma processEntry_other:
  assumes "processEntry lib unv f e = Ok f'" "n \<noteq> fst e \<or> n \<notin> set unv"
  shows "formal f' n = formal f n"
  using processEntry_cases [of lib unv f "fst e" "snd e" f'] assms
  by (auto simp: setDropErr_simps)

lemma processEntry_abort:
  "processEntry lib unv f e = Abort a \<Longrightarrow> a = logFatal ''Unsupported Config file type''"
  by (cases e) (auto simp: Let_def split: if_splits jvalue.splits)

lemma processEntries_keeps:
  "processEntries lib unv f es = Ok f' \<Longrightarrow>
   envNames f' = envNames f \<and> flagTypes f' = flagTypes f \<and>
   configFilePaths f' = configFilePaths f \<and> cellKind f' = cellKind f"
proof (induction es arbitrary: f)
  case Nil
  then show ?case by simp
next
  case (Cons e es)
  then obtain f1 where 1: "processEntry lib unv f e = Ok f1"
    and 2: "processEntries lib unv f1 es = Ok f'"
    by (auto split: outcome.splits)
  from Cons.IH [OF 2] processEntry_keeps [OF 1] show ?case by simp
qed

lemma processEntries_other:
  "processEntries lib unv f es = Ok f' \<Longrightarrow> n \<notin> fst ` set es \<or> n \<notin> set unv \<Longrightarrow>
   formal f' n = formal f n"
proof (induction es arbitrary: f)
  case Nil
  then show ?case by simp
next
  case (Cons e es)
  then obtain f1 where 1: "processEntry lib unv f e = Ok f1"
    and 2: "processEntries lib unv f1 es = Ok f'"
    by (auto split: outcome.splits)
  have "formal f1 n = formal f n"
    using Cons.prems(2) by (intro processEntry_other [OF 1]) auto
  moreover have "formal f' n = formal f1 n"
    using Cons.prems(2) by (intro Cons.IH [OF 2]) auto
  ultimately show ?case by simp
qed

lemma processEntries_abort:
  "processEntries lib unv f es = Abort a \<Longrightarrow> a = logFatal ''Unsupported Config file type''"
  by (induction es arbitrary: f) (auto split: outcome.splits dest: processEntry_abort)

lemma processEntries_unsupported:
  "(k, v) \<in> set es \<Longrightarrow> k \<in> set unv \<Longrightarrow> unsupported v \<Longrightarrow>
   processEntries lib unv f es = Abort (logFatal ''Unsupported Config file type'')"
proof (induction es arbitrary: f)
  case Nil
  then show ?case by simp
next
  case (Cons e es)
  show ?case
  proof (cases "processEntry lib unv f e")
    case (Ok f1)
    with Cons.prems have "e \<noteq> (k, v)"
      by (auto simp: processEntry_unvisited simp del: processEntry.simps)
    with Cons.prems have "(k, v) \<in> set es" by simp
    from Cons.IH [OF this Cons.prems(2,3)] Ok show ?thesis by simp
  next
    case (Abort a)
    then show ?thesis by (simp add: processEntry_abort)
  qed
qed

text \<open>An entry of a decoded object with distinct keys decides the value of its flag.\<close>

lemma processEntries_sets:
  assumes "processEntries lib unv f es = Ok f'" "distinct (map fst es)" "(k, v) \<in> set es"
    "k \<in> set unv" "fileText (flagType f k) v = Some txt" "formal f k = Some fl"
  shows "valueOf f' k = Some (fst (Value_Set lib (Value fl) txt))"
  using assms
proof (induction es arbitrary: f fl)
  case Nil
  then show ?case by simp
next
  case (Cons e es)
  then obtain f1 where 1: "processEntry lib unv f e = Ok f1"
    and 2: "processEntries lib unv f1 es = Ok f'"
    by (auto split: outcome.splits)
  show ?case
  proof (cases "e = (k, v)")
    case True
    with Cons.prems have "k \<notin> fst ` set es" by auto
    then have "formal f' k = formal f1 k"
      by (intro processEntries_other [OF 2]) simp
    moreover have "f1 = setDropErr lib f k txt"
      using 1 True Cons.prems(4,5)
      by (auto simp: processEntry_unvisited simp del: processEntry.simps split: if_splits)
    ultimately show ?thesis
      using setDropErr_value [of f k fl lib "txt"] Cons.prems(6) by (simp add: valueOf_def)
  next
    case False
    with Cons.prems have in_es: "(k, v) \<in> set es" by simp
    with Cons.prems(2) have "fst e \<noteq> k" by (cases e) force
    then have same: "formal f1 k = formal f k"
      by (intro processEntry_other [OF 1]) simp
    have ft: "flagType f1 k = flagType f k"
      using processEntry_keeps(2) [OF 1] by (simp add: flagType_def)
    show ?thesis
      using Cons.IH [OF 2 _ in_es Cons.prems(4), of fl] Cons.prems(2,5,6) same ft by simp
  qed
qed

lemma readFiles_append:
  "readFiles w lib unv (ps @ qs) s =
     (case readFiles w lib unv ps s of Ok s' \<Rightarrow> readFiles w lib unv qs s' | Abort a \<Rightarrow> Abort a)"
proof (induction ps arbitrary: s)
  case Nil
  then show ?case by (cases s) simp
next
  case (Cons p ps)
  obtain f lg where s: "s = (f, lg)" by (cases s)
  show ?case
    unfolding s using Cons.IH
    by (simp add: Let_def split: sum.splits outcome.splits)
qed

lemma readFiles_keeps:
  "readFiles w lib unv ps (f, lg) = Ok (f', lg') \<Longrightarrow>
   envNames f' = envNames f \<and> flagTypes f' = flagTypes f \<and>
   configFilePaths f' = configFilePaths f \<and> cellKind f' = cellKind f"
proof (induction ps arbitrary: f lg)
  case Nil
  then show ?case by simp
next
  case (Cons p ps)
  then show ?case
    by (auto simp: Let_def split: if_splits sum.splits outcome.splits
             dest!: processEntries_keeps)
qed

lemma readFiles_visited:
  "readFiles w lib unv ps (f, lg) = Ok (f', lg') \<Longrightarrow> n \<notin> set unv \<Longrightarrow>
   formal f' n = formal f n"
proof (induction ps arbitrary: f lg)
  case Nil
  then show ?case by simp
next
  case (Cons p ps)
  then show ?case
    by (auto simp: Let_def split: if_splits sum.splits outcome.splits
             dest!: processEntries_other [where n = n])
qed

lemma readFiles_absent:
  "readFiles w lib unv ps (f, lg) = Ok (f', lg') \<Longrightarrow>
   \<forall>es \<in> set (filesRead w lib unv ps f). n \<notin> fst ` set es \<Longrightarrow>
   formal f' n = formal f n"
proof (induction ps arbitrary: f lg)
  case Nil
  then show ?case by simp
next
  case (Cons p ps)
  show ?case
  proof (cases "length (deref f p) \<noteq> 0")
    case False
    with Cons.prems show ?thesis
      by (intro Cons.IH [of f lg]) (simp_all add: Let_def)
  next
    case True
    with Cons.prems(1) obtain dat where rd: "ReadFile w (deref f p) = Inr dat"
      by (cases "ReadFile w (deref f p)") (simp_all add: Let_def)
    show ?thesis
    proof (cases "Unmarshal w dat")
      case (Inl err)
      with True rd Cons.prems show ?thesis
        by (intro Cons.IH [of f "lg @ [decodeLogLine (deref f p) err]"])
           (simp_all add: Let_def)
    next
      case (Inr es)
      with True rd Cons.prems(1) obtain f1 where
        pe: "processEntries lib unv f es = Ok f1" and
        rest: "readFiles w lib unv ps (f1, lg) = Ok (f', lg')"
        by (cases "processEntries lib unv f es") (simp_all add: Let_def)
      from True rd Inr pe Cons.prems(2) have
        here: "n \<notin> fst ` set es" and
        later: "\<forall>es \<in> set (filesRead w lib unv ps f1). n \<notin> fst ` set es"
        by (simp_all add: Let_def)
      have "formal f1 n = formal f n"
        using here by (intro processEntries_other [OF pe]) simp
      moreover have "formal f' n = formal f1 n"
        by (rule Cons.IH [OF rest later])
      ultimately show ?thesis by simp
    qed
  qed
qed

lemma readFiles_abort:
  "readFiles w lib unv ps s = Abort a \<Longrightarrow>
   a = logFatal ''Unsupported Config file type'' \<or> (\<exists>e. a = panic e)"
proof (induction ps arbitrary: s)
  case Nil
  then show ?case by (cases s) simp
next
  case (Cons p ps)
  obtain f lg where s: "s = (f, lg)" by (cases s)
  from Cons.prems show ?case
    unfolding s
    by (auto simp: Let_def split: if_splits sum.splits outcome.splits
             dest: processEntries_abort Cons.IH)
qed

subsection \<open>The loop over the environment\<close>

lemma envLoop_skip:
  "\<forall>e. envNames f nm = Some e \<longrightarrow> Getenv w e = [] \<Longrightarrow>
   envLoop w lib (nm # nms) (f, err) = envLoop w lib nms (f, err)"
  by (auto split: option.splits)

lemma envLoop_set:
  "envNames f nm = Some e \<Longrightarrow> Getenv w e \<noteq> [] \<Longrightarrow>
   envLoop w lib (nm # nms) (f, err) = envLoop w lib nms (FlagSet_Set lib f nm (Getenv w e))"
  by simp

lemma envLoop_none:
  "\<forall>m \<in> set nms. \<forall>e. envNames f m = Some e \<longrightarrow> Getenv w e = [] \<Longrightarrow>
   envLoop w lib nms (f, err) = (f, err)"
proof (induction nms)
  case Nil
  then show ?case by simp
next
  case (Cons h t)
  then show ?case by (simp add: envLoop_skip del: envLoop.simps)
qed

lemma envLoop_other:
  "envLoop w lib nms (f, err) = (f', err') \<Longrightarrow>
   n \<notin> set nms \<or> (\<forall>e. envNames f n = Some e \<longrightarrow> Getenv w e = []) \<Longrightarrow>
   formal f' n = formal f n \<and> envNames f' = envNames f"
proof (induction nms arbitrary: f err)
  case Nil
  then show ?case by simp
next
  case (Cons h t)
  show ?case
  proof (cases "\<forall>e. envNames f h = Some e \<longrightarrow> Getenv w e = []")
    case True
    with Cons.prems show ?thesis
      by (intro Cons.IH [of f err]) (auto simp: envLoop_skip simp del: envLoop.simps)
  next
    case False
    then obtain e where e: "envNames f h = Some e" "Getenv w e \<noteq> []" by auto
    obtain g eg where g: "FlagSet_Set lib f h (Getenv w e) = (g, eg)"
      by (cases "FlagSet_Set lib f h (Getenv w e)")
    have env: "envNames g = envNames f"
      using FlagSet_Set_fields(1) [of lib f h "Getenv w e"] g by simp
    from e Cons.prems(2) have "n \<noteq> h" by auto
    then have same: "formal g n = formal f n"
      using FlagSet_Set_other [of n h lib f "Getenv w e"] g by simp
    have run: "envLoop w lib t (g, eg) = (f', err')"
      using Cons.prems(1) e g by simp
    from Cons.IH [OF run] Cons.prems(2) env same show ?thesis by auto
  qed
qed

lemma envLoop_value:
  "envLoop w lib nms (f, err) = (f', err') \<Longrightarrow> n \<in> set nms \<Longrightarrow>
   envNames f n = Some e \<Longrightarrow> Getenv w e \<noteq> [] \<Longrightarrow> formal f n = Some fl \<Longrightarrow>
   valueOf f' n = Some (fst (Value_Set lib (Value fl) (Getenv w e)))"
proof (induction nms arbitrary: f err fl)
  case Nil
  then show ?case by simp
next
  case (Cons h t)
  show ?case
  proof (cases "\<forall>e. envNames f h = Some e \<longrightarrow> Getenv w e = []")
    case True
    with Cons.prems have "n \<noteq> h" by auto
    with Cons.prems(2) have "n \<in> set t" by simp
    moreover from True Cons.prems(1) have "envLoop w lib t (f, err) = (f', err')"
      by (simp add: envLoop_skip del: envLoop.simps)
    ultimately show ?thesis
      using Cons.IH [of f err fl] Cons.prems(3,4,5) by simp
  next
    case False
    then obtain eh where eh: "envNames f h = Some eh" "Getenv w eh \<noteq> []" by auto
    obtain g eg where g: "FlagSet_Set lib f h (Getenv w eh) = (g, eg)"
      by (cases "FlagSet_Set lib f h (Getenv w eh)")
    have env: "envNames g = envNames f"
      using FlagSet_Set_fields(1) [of lib f h "Getenv w eh"] g by simp
    have run: "envLoop w lib t (g, eg) = (f', err')"
      using Cons.prems(1) eh g by simp
    show ?thesis
    proof (cases "n = h")
      case True
      with eh Cons.prems(3) have [simp]: "eh = e" by simp
      define fl1 where "fl1 = fl\<lparr>Value := fst (Value_Set lib (Value fl) (Getenv w e))\<rparr>"
      have g_n: "formal g n = Some fl1"
        using FlagSet_Set_formal [of lib f h "Getenv w eh"] g True Cons.prems(5)
        by (simp add: fl1_def)
      show ?thesis
      proof (cases "n \<in> set t")
        case True
        from Cons.IH [OF run True _ Cons.prems(4) g_n] Cons.prems(3) env
        show ?thesis by (simp add: fl1_def Value_Set_twice)
      next
        case False
        with envLoop_other [OF run, of n] g_n show ?thesis
          by (simp add: valueOf_def fl1_def)
      qed
    next
      case False
      with Cons.prems(2) have in_t: "n \<in> set t" by simp
      have "formal g n = Some fl"
        using FlagSet_Set_other [of n h lib f "Getenv w eh"] g False Cons.prems(5) by simp
      from Cons.IH [OF run in_t _ Cons.prems(4) this] Cons.prems(3) env
      show ?thesis by simp
    qed
  qed
qed

lemma envLoop_err:
  "n \<in> set nms \<Longrightarrow> envNames f n = Some e \<Longrightarrow> Getenv w e \<noteq> [] \<Longrightarrow> formal f n = Some fl \<Longrightarrow>
   \<forall>m \<in> set nms. m \<noteq> n \<longrightarrow> (\<forall>e'. envNames f m = Some e' \<longrightarrow> Getenv w e' = []) \<Longrightarrow>
   snd (envLoop w lib nms (f, err)) = snd (Value_Set lib (Value fl) (Getenv w e))"
proof (induction nms arbitrary: f err fl)
  case Nil
  then show ?case by simp
next
  case (Cons h t)
  show ?case
  proof (cases "n = h")
    case False
    with Cons.prems have skip: "\<forall>e. envNames f h = Some e \<longrightarrow> Getenv w e = []"
      and in_t: "n \<in> set t" by auto
    from Cons.IH [OF in_t Cons.prems(2,3,4), of err] Cons.prems(5) skip
    show ?thesis by (simp add: envLoop_skip del: envLoop.simps)
  next
    case True
    obtain g eg where g: "FlagSet_Set lib f h (Getenv w e) = (g, eg)"
      by (cases "FlagSet_Set lib f h (Getenv w e)")
    have env: "envNames g = envNames f"
      using FlagSet_Set_fields(1) [of lib f h "Getenv w e"] g by simp
    define fl1 where "fl1 = fl\<lparr>Value := fst (Value_Set lib (Value fl) (Getenv w e))\<rparr>"
    have g_n: "formal g n = Some fl1"
      using FlagSet_Set_formal [of lib f h "Getenv w e"] g True Cons.prems(4)
      by (simp add: fl1_def)
    have eg: "eg = snd (Value_Set lib (Value fl) (Getenv w e))"
      using FlagSet_Set_err [of lib f h "Getenv w e"] g True Cons.prems(4) by simp
    have step: "envLoop w lib (h # t) (f, err) = envLoop w lib t (g, eg)"
      using Cons.prems(2,3) True g by simp
    show ?thesis
    proof (cases "n \<in> set t")
      case True
      have "snd (envLoop w lib t (g, eg)) = snd (Value_Set lib (Value fl1) (Getenv w e))"
        using Cons.prems(2,3,5) env by (intro Cons.IH [OF True _ _ g_n]) auto
      then show ?thesis by (simp add: step fl1_def Value_Set_twice del: envLoop.simps)
    next
      case False
      with Cons.prems(5) env
      have "\<forall>m \<in> set t. \<forall>e. envNames g m = Some e \<longrightarrow> Getenv w e = []" by auto
      from envLoop_none [OF this] show ?thesis
        by (simp add: step eg del: envLoop.simps)
    qed
  qed
qed

subsection \<open>\<open>Collate\<close>\<close>

lemma Collate_Ok:
  assumes "Collate w lib ord f = Ok (err, f2, lg)"
  obtains f1 where
    "readFiles w lib (unVisitedFlags ord f) (configFilePaths f) (f, []) = Ok (f1, lg)"
    "envLoop w lib (unVisitedFlags ord f) (f1, None) = (f2, err)"
  using assms
  by (auto simp: Collate_def readConfigurationFiles_def Let_def
           split: outcome.splits prod.splits option.splits)

lemma Collate_run:
  assumes "readFiles w lib (unVisitedFlags ord f) (configFilePaths f) (f, []) = Ok (f1, lg)"
  shows "Collate w lib ord f =
           Ok (snd (envLoop w lib (unVisitedFlags ord f) (f1, None)),
               fst (envLoop w lib (unVisitedFlags ord f) (f1, None)), lg)"
  using assms
  by (simp add: Collate_def readConfigurationFiles_def Let_def split: prod.splits)

lemma Collate_abort:
  assumes "readFiles w lib (unVisitedFlags ord f) (configFilePaths f) (f, []) = Abort a"
  shows "Collate w lib ord f = Abort a"
  using assms by (simp add: Collate_def readConfigurationFiles_def Let_def)

lemma unVisitedFlags_iff:
  "n \<in> set (unVisitedFlags ord f) \<longleftrightarrow> n \<in> set ord \<and> formal f n \<noteq> None \<and> n \<notin> actual f"
  by (auto simp: unVisitedFlags_def)

subsection \<open>\<open>FlagSet.Parse\<close> and registration\<close>

lemma storeValue_seen:
  "storeValue f nm flag r msg = (True, e, f') \<Longrightarrow>
   actual f' = insert nm (actual f) \<and> (\<forall>n. n \<noteq> nm \<longrightarrow> formal f' n = formal f n)"
  by (auto simp: storeValue_def split: prod.splits option.splits)

lemma storeValue_unseen: "storeValue f nm flag r msg = (False, e, f') \<Longrightarrow> e \<noteq> None"
  by (auto simp: storeValue_def split: prod.splits option.splits)

lemma parseOne_seen:
  "parseOne lib f = (True, e, f') \<Longrightarrow>
   actual f \<subseteq> actual f' \<and> (\<forall>n. n \<notin> actual f' \<longrightarrow> formal f' n = formal f n)"
  by (auto simp: parseOne_def Let_def
           split: list.splits if_splits prod.splits option.splits
           dest!: storeValue_seen)

lemma parseOne_done:
  "parseOne lib f = (False, None, f') \<Longrightarrow> formal f' = formal f \<and> actual f' = actual f"
  by (auto simp: parseOne_def Let_def
           split: list.splits if_splits prod.splits option.splits
           dest!: storeValue_unseen)

lemma parseLoop_keeps:
  "parseLoop lib f = Ok (f1, None) \<Longrightarrow>
   actual f \<subseteq> actual f1 \<and> (\<forall>n. n \<notin> actual f1 \<longrightarrow> formal f1 n = formal f n)"
proof (induction lib f rule: parseLoop.induct)
  case (1 lib f)
  obtain seen e f' where p: "parseOne lib f = (seen, e, f')"
    by (cases "parseOne lib f")
  show ?case
  proof (cases seen)
    case True
    with p "1.prems" have "parseLoop lib f' = Ok (f1, None)"
      by (simp add: parseLoop.simps [of lib f])
    from "1.IH" [OF p [symmetric] refl True this] parseOne_seen [of lib f e f'] p True
    show ?thesis by auto
  next
    case False
    with p "1.prems" have "e = None" "f' = f1"
      by (auto simp: parseLoop.simps [of lib f]
               split: option.splits ErrorHandling.splits)
    with parseOne_done [of lib f f'] p False show ?thesis by simp
  qed
qed

lemma FlagSet_Parse_keeps:
  "FlagSet_Parse lib f arguments = Ok (f1, None) \<Longrightarrow> n \<notin> actual f1 \<Longrightarrow>
   formal f1 n = formal f n"
  using parseLoop_keeps [of lib "f\<lparr>parsed := True, args := arguments\<rparr>" f1]
  by (simp add: FlagSet_Parse_def)

lemma FlagSet_Var_Ok:
  "FlagSet_Var f v nm u = Ok f' \<Longrightarrow>
   formal f nm = None \<and> valueOf f' nm = Some v \<and> (\<forall>n. n \<noteq> nm \<longrightarrow> formal f' n = formal f n)"
  by (auto simp: FlagSet_Var_def valueOf_def split: if_splits)

lemma FlagSet_Var_redefined:
  "formal f nm \<noteq> None \<Longrightarrow> \<exists>msg. FlagSet_Var f v nm u = Abort (panic msg)"
  by (auto simp: FlagSet_Var_def)

lemma register_Ok:
  "register f d = Ok f' \<Longrightarrow>
   formal f (declName d) = None \<and> valueOf f' (declName d) = Some (declDefault d) \<and>
   (\<forall>n. n \<noteq> declName d \<longrightarrow> formal f' n = formal f n)"
  by (cases d)
     (auto simp: Bool_def String_def Int_flag_def Float64_def Int64_def Uint_def Uint64_def
        Duration_def AddConfigFile_def dest!: FlagSet_Var_Ok)

lemma registerAll_keeps:
  "registerAll f ds = Ok f' \<Longrightarrow> formal f n \<noteq> None \<Longrightarrow> formal f' n = formal f n"
proof (induction ds arbitrary: f)
  case Nil
  then show ?case by simp
next
  case (Cons d ds)
  then obtain f1 where 1: "register f d = Ok f1" and 2: "registerAll f1 ds = Ok f'"
    by (auto split: outcome.splits)
  from register_Ok [OF 1] Cons.prems(2) have "n \<noteq> declName d" by auto
  with register_Ok [OF 1] have "formal f1 n = formal f n" by simp
  with Cons.IH [OF 2] Cons.prems(2) show ?case by simp
qed

lemma registerAll_default:
  "registerAll f ds = Ok f' \<Longrightarrow> d \<in> set ds \<Longrightarrow> valueOf f' (declName d) = Some (declDefault d)"
proof (induction ds arbitrary: f)
  case Nil
  then show ?case by simp
next
  case (Cons x xs)
  then obtain f1 where 1: "register f x = Ok f1" and 2: "registerAll f1 xs = Ok f'"
    by (auto split: outcome.splits)
  show ?case
  proof (cases "d = x")
    case True
    with register_Ok [OF 1] have v: "valueOf f1 (declName d) = Some (declDefault d)" by simp
    then have "formal f1 (declName d) \<noteq> None" by (auto simp: valueOf_def)
    from registerAll_keeps [OF 2 this] v show ?thesis by (simp add: valueOf_def)
  next
    case False
    with Cons.prems(2) have "d \<in> set xs" by simp
    from Cons.IH [OF 2 this] show ?thesis .
  qed
qed

lemma FlagSet_Var_fields:
  "FlagSet_Var g v nm u = Ok g' \<Longrightarrow>
   configFilePaths g' = configFilePaths g \<and> flagTypes g' = flagTypes g \<and>
   envNames g' = envNames g \<and> actual g' = actual g"
  by (auto simp: FlagSet_Var_def split: if_splits)

subsection \<open>The last file that holds a name\<close>

text \<open>
  \<open>AddConfigFile\<close> appends the path flag to the list that the loop over the files goes
  through from the left. When B is the file of the path flag \<open>b\<close>, read after the files
  of \<open>ps\<close>, and no file decoded after B holds the name, the setting ends with what
  \<open>Set\<close> makes of the text that the type switch hands over for B's entry, whatever the
  earlier files hold. For a String setting and a JSON string, and for a Bool setting and
  a JSON bool, that is the value in B.
\<close>

lemma AddConfigFile_appends:
  "AddConfigFile g c usage = Ok g' \<Longrightarrow> configFilePaths g' = configFilePaths g @ [c]"
  by (auto simp: AddConfigFile_def dest!: FlagSet_Var_fields)

lemma last_file_wins:
  assumes paths: "configFilePaths f = ps @ b # qs"
    and unset: "nm \<in> set ord" "formal f nm = Some fl" "nm \<notin> actual f"
    and before: "readFiles w lib (unVisitedFlags ord f) ps (f, []) = Ok (f1, lg1)"
    and source: "deref f1 b \<noteq> []" "ReadFile w (deref f1 b) = Inr dat" "Unmarshal w dat = Inr es"
    and entry: "distinct (map fst es)" "(nm, jv) \<in> set es"
      "fileText (flagType f nm) jv = Some txt"
    and last: "processEntries lib (unVisitedFlags ord f) f1 es = Ok fb"
    and later: "\<forall>es' \<in> set (filesRead w lib (unVisitedFlags ord f) qs fb). nm \<notin> fst ` set es'"
    and noenv: "\<forall>e. envNames f nm = Some e \<longrightarrow> Getenv w e = []"
    and collate: "Collate w lib ord f = Ok (err, f2, lg)"
  shows "valueOf f2 nm = Some (fst (Value_Set lib (Value fl) txt))"
proof -
  let ?unv = "unVisitedFlags ord f"
  from unset have unv: "nm \<in> set ?unv" by (simp add: unVisitedFlags_iff)
  from collate obtain fm where
    files: "readFiles w lib ?unv (configFilePaths f) (f, []) = Ok (fm, lg)"
    and env: "envLoop w lib ?unv (fm, None) = (f2, err)"
    by (auto elim: Collate_Ok)
  from files paths before have "readFiles w lib ?unv (b # qs) (f1, lg1) = Ok (fm, lg)"
    by (simp add: readFiles_append)
  with source last have rest: "readFiles w lib ?unv qs (fb, lg1) = Ok (fm, lg)"
    by (simp add: Let_def)
  from readFiles_keeps [OF before] have k1: "flagTypes f1 = flagTypes f"
    "envNames f1 = envNames f" "cellKind f1 nm = cellKind f nm" by simp_all
  from k1(3) unset(2) obtain fl1 where fl1: "formal f1 nm = Some fl1"
    by (auto simp: cellKind_def)
  from entry(3) k1(1) have ft: "fileText (flagType f1 nm) jv = Some txt"
    by (simp add: flagType_def)
  from processEntries_sets [OF last entry(1) entry(2) unv ft fl1]
  have "valueOf fb nm = Some (fst (Value_Set lib (Value fl1) txt))" .
  with cellKind_Value_Set [OF k1(3) unset(2) fl1, of lib "txt"]
  have "valueOf fb nm = Some (fst (Value_Set lib (Value fl) txt))" by simp
  with readFiles_absent [OF rest later]
  have v: "valueOf fm nm = Some (fst (Value_Set lib (Value fl) txt))"
    by (simp add: valueOf_def)
  from processEntries_keeps [OF last] readFiles_keeps [OF rest] k1(2)
  have "envNames fm = envNames f" by simp
  with noenv have "\<forall>e. envNames fm nm = Some e \<longrightarrow> Getenv w e = []" by simp
  with envLoop_other [OF env, of nm] have "formal f2 nm = formal fm nm" by simp
  with v show ?thesis by (simp add: valueOf_def)
qed

lemma last_file_wins_String:
  assumes "configFilePaths f = ps @ b # qs"
    and "nm \<in> set ord" "formal f nm = Some fl" "nm \<notin> actual f"
    and "Value fl = stringValue x"
    and "readFiles w lib (unVisitedFlags ord f) ps (f, []) = Ok (f1, lg1)"
    and "deref f1 b \<noteq> []" "ReadFile w (deref f1 b) = Inr dat" "Unmarshal w dat = Inr es"
    and "distinct (map fst es)" "(nm, JString s) \<in> set es"
    and "processEntries lib (unVisitedFlags ord f) f1 es = Ok fb"
    and "\<forall>es' \<in> set (filesRead w lib (unVisitedFlags ord f) qs fb). nm \<notin> fst ` set es'"
    and "\<forall>e. envNames f nm = Some e \<longrightarrow> Getenv w e = []"
    and "Collate w lib ord f = Ok (err, f2, lg)"
  shows "valueOf f2 nm = Some (stringValue s)"
  using last_file_wins [OF assms(1-4) assms(6-11) _ assms(12-15), of s] assms(5) by simp

lemma last_file_wins_Bool:
  assumes "configFilePaths f = ps @ b # qs"
    and "nm \<in> set ord" "formal f nm = Some fl" "nm \<notin> actual f"
    and "Value fl = boolValue x"
    and "readFiles w lib (unVisitedFlags ord f) ps (f, []) = Ok (f1, lg1)"
    and "deref f1 b \<noteq> []" "ReadFile w (deref f1 b) = Inr dat" "Unmarshal w dat = Inr es"
    and "distinct (map fst es)" "(nm, JBool v) \<in> set es"
    and "processEntries lib (unVisitedFlags ord f) f1 es = Ok fb"
    and "\<forall>es' \<in> set (filesRead w lib (unVisitedFlags ord f) qs fb). nm \<notin> fst ` set es'"
    and "\<forall>e. envNames f nm = Some e \<longrightarrow> Getenv w e = []"
    and "Collate w lib ord f = Ok (err, f2, lg)"
  shows "valueOf f2 nm = Some (boolValue v)"
  using last_file_wins [OF assms(1-4) assms(6-11) _ assms(12-15),
      of "if v then ''true'' else ''false''"] assms(5)
  by (simp add: ParseBool_def)

subsection \<open>The text of a duration\<close>

lemma digit_not_space: "c \<in> set ''0123456789'' \<Longrightarrow> \<not> isSpace c"
  by (auto simp: isSpace_def)

lemma digitChar_digit: "d < 10 \<Longrightarrow> digitChar d \<in> set ''0123456789''"
  unfolding digitChar_def by (rule nth_mem) simp

lemma formatNat_hd: "formatNat n \<noteq> [] \<and> hd (formatNat n) \<in> set ''0123456789''"
proof (induction n rule: formatNat.induct)
  case (1 n)
  show ?case
  proof (cases "n < 10")
    case True
    then show ?thesis
      using digitChar_digit [of n] by (simp add: formatNat.simps [of n])
  next
    case False
    with "1.IH" show ?thesis
      by (simp add: formatNat.simps [of n])
  qed
qed

lemma Sprintf_0f_hd: "Sprintf_0f v \<noteq> [] \<and> \<not> isSpace (hd (Sprintf_0f v))"
proof (cases "v < 0")
  case True
  then show ?thesis by (simp add: Sprintf_0f_def isSpace_def)
next
  case False
  with formatNat_hd [of "nat (roundHalfEven \<bar>v\<bar>)"] show ?thesis
    by (simp add: Sprintf_0f_def digit_not_space)
qed

lemma TrimSpace_padded:
  assumes "t \<noteq> []" "\<not> isSpace (hd t)" "\<not> isSpace (last t)"
  shows "TrimSpace (replicate k (CHR '' '') @ t) = t"
proof -
  have "dropWhile isSpace (replicate k (CHR '' '') @ t) = dropWhile isSpace t"
    by (rule dropWhile_append2) (simp add: isSpace_def)
  also have "\<dots> = t"
    using assms(1,2) by (cases t) simp_all
  finally have 1: "dropWhile isSpace (replicate k (CHR '' '') @ t) = t" .
  have "dropWhile isSpace (rev t) = rev t"
    using assms(1,3) by (cases "rev t") (simp_all add: last_rev [symmetric] del: last_rev)
  with 1 show ?thesis by (simp add: TrimSpace_def)
qed

lemma TrimSpace_duration: "TrimSpace (Sprintf_18_0f_ns v) = Sprintf_0f v @ ''ns''"
proof -
  have "TrimSpace (replicate (18 - length (Sprintf_0f v)) (CHR '' '') @ (Sprintf_0f v @ ''ns''))
          = Sprintf_0f v @ ''ns''"
    using Sprintf_0f_hd [of v] by (intro TrimSpace_padded) (simp_all add: isSpace_def)
  then show ?thesis by (simp add: Sprintf_18_0f_ns_def padLeft_def)
qed

subsection \<open>Running the model on concrete inputs\<close>

text \<open>
  \<open>parseLoop\<close> unfolds once per flag when its recursive call stands under an \<open>if\<close>.
\<close>

lemma parseLoop_unfold:
  "parseLoop lib f =
     (if fst (parseOne lib f) then parseLoop lib (snd (snd (parseOne lib f)))
      else case fst (snd (parseOne lib f)) of
             None \<Rightarrow> Ok (snd (snd (parseOne lib f)), None)
           | Some e \<Rightarrow>
               (case errorHandling (snd (snd (parseOne lib f))) of
                  ContinueOnError \<Rightarrow> Ok (snd (snd (parseOne lib f)), Some e)
                | ExitOnError \<Rightarrow> Abort (osExit (if e = ErrHelp then 0 else 2))
                | PanicOnError \<Rightarrow> Abort (panic e)))"
  by (cases "parseOne lib f")
     (auto simp: parseLoop.simps [of lib f] split: option.splits ErrorHandling.splits)

lemma replicate_numeral_Cons: "replicate (numeral k) x = x # replicate (pred_numeral k) x"
  by (simp add: numeral_eq_Suc)

lemmas eval_simps =
  run_def NewFlagfigSet_def Bool_def String_def Int_flag_def Float64_def Int64_def Uint_def
  Uint64_def Duration_def AddConfigFile_def FlagSet_Var_def FlagSet_Set_def FlagSet_Parse_def
  parseLoop_unfold parseOne_def splitValue_def storeValue_def ParseBool_def Parse_def
  Collate_def readConfigurationFiles_def unVisitedFlags_def deref_def valueOf_def
  flagType_def setDropErr_def resolved_def returned_def logged_def Let_def
  intType_def stringType_def boolType_def floatType_def int64Type_def uintType_def
  uint64Type_def durationType_def decodeLogLine_def

lemmas conv_simps =
  decimalConv_def decimalInt_def decimalUint_def decimalFloat_def decimalDuration_def
  splitSign_def readCanonical_def readNat_def digitVal_def syntaxError_def rangeError_def
  Second_def Nanosecond_def

text \<open>Rounding and printing a number that is written with numerals.\<close>

lemma floor_rat_numeral_div: "\<lfloor>numeral a / numeral b :: rat\<rfloor> = numeral a div numeral b"
  using floor_divide_of_int_eq [of "numeral a" "numeral b", where ?'a = rat] by simp

lemma floor_rat_one_div: "\<lfloor>1 / numeral b :: rat\<rfloor> = 1 div numeral b"
  using floor_divide_of_int_eq [of 1 "numeral b", where ?'a = rat] by simp

lemma formatNat_0: "formatNat 0 = ''0''"
  by (simp add: formatNat.simps digitChar_def)

lemma formatNat_1: "formatNat 1 = ''1''" "formatNat (Suc 0) = ''1''"
  by (simp_all add: formatNat.simps digitChar_def)

lemmas formatNat_numeral = formatNat.simps [of "numeral k"] for k

lemmas fmt_simps =
  Sprintf_0f_def Sprintf_f_def Sprintf_18_0f_ns_def padLeft_def TrimSpace_def isSpace_def
  roundHalfEven_def formatNat_0 formatNat_1 formatNat_numeral digitChar_def
  replicate_numeral_Cons floor_rat_numeral_div floor_rat_one_div Let_def

lemma nameSet_registered:
  "registerAll (NewFlagfigSet ''prog'' ContinueOnError) nameDecls = Ok nameSet"
  by (simp add: eval_simps nameDecls_def nameSet_def)

lemma hostSet_parsed:
  "(case registerAll (NewFlagfigSet ''prog'' ContinueOnError)
          [DeclConfigFile ''config'' ''configuration file'',
           DeclString ''host'' [] ''HOST_ENV'' ''a host'',
           DeclInt ''count'' 1 ''COUNT'' ''a count''] of
      Ok f \<Rightarrow> FlagSet_Parse decimalConv f [''-config=cfg.json'']
    | Abort a \<Rightarrow> Abort a) = Ok (hostSet, None)"
  by (simp add: eval_simps hostSet_def)

lemma hostReg_parse:
  "FlagSet_Parse decimalConv hostReg [''-config=cfg.json''] = Ok (hostSet, None)"
  by (simp add: eval_simps hostReg_def hostSet_def)

section \<open>The claims\<close>

text \<open>
  Claim C1. For every setting explicitly passed on the command line (visited during flag
  parsing), \<open>Collate\<close> never modifies its value: after \<open>Parse\<close>, the resolved value
  equals the command-line value, regardless of any configuration-file entry or
  environment-variable value for that name. Here \<open>f1\<close> is the flag set as
  \<open>flag.FlagSet.Parse\<close> leaves it, \<open>f2\<close> as \<open>Parse\<close> leaves it; the world \<open>w\<close>
  (files and environment) is arbitrary.
\<close>

theorem C1_explicit_flag_untouched:
  assumes "FlagSet_Parse lib f arguments = Ok (f1, None)"
    and "nm \<in> actual f1"
    and "Parse w lib ord f arguments = Ok (err, f2, lg)"
  shows "valueOf f2 nm = valueOf f1 nm"
proof -
  from assms(1,3) have c: "Collate w lib ord f1 = Ok (err, f2, lg)"
    by (simp add: Parse_def)
  from c obtain fm where
    files: "readFiles w lib (unVisitedFlags ord f1) (configFilePaths f1) (f1, []) = Ok (fm, lg)"
    and env: "envLoop w lib (unVisitedFlags ord f1) (fm, None) = (f2, err)"
    by (rule Collate_Ok)
  from assms(2) have out: "nm \<notin> set (unVisitedFlags ord f1)"
    by (simp add: unVisitedFlags_iff)
  from readFiles_visited [OF files out] have "formal fm nm = formal f1 nm" .
  moreover from envLoop_other [OF env] out have "formal f2 nm = formal fm nm" by simp
  ultimately show ?thesis by (simp add: valueOf_def)
qed

theorem C1_explicit_flag_untouched_witness:
  "\<exists>f1 err f2 lg.
     FlagSet_Parse decimalConv nameSet [''-first=a.json'', ''-name=explicit''] = Ok (f1, None) \<and>
     ''name'' \<in> actual f1 \<and>
     Parse fileWorld decimalConv nameOrder nameSet [''-first=a.json'', ''-name=explicit'']
       = Ok (err, f2, lg) \<and>
     valueOf f2 ''name'' = valueOf f1 ''name'' \<and>
     valueOf f2 ''name'' = Some (stringValue ''explicit'')"
proof -
  let ?args = "[''-first=a.json'', ''-name=explicit'']"
  let ?f1 = "case FlagSet_Parse decimalConv nameSet ?args of
               Ok (f1, e) \<Rightarrow> f1 | Abort a \<Rightarrow> nameSet"
  let ?r = "Parse fileWorld decimalConv nameOrder nameSet ?args"
  let ?f2 = "case ?r of Ok (e, f2, lg) \<Rightarrow> f2 | Abort a \<Rightarrow> nameSet"
  have p: "FlagSet_Parse decimalConv nameSet ?args = Ok (?f1, None)"
    by (simp add: eval_simps nameSet_def)
  have a: "''name'' \<in> actual ?f1"
    by (simp add: eval_simps nameSet_def)
  have q: "?r = Ok (None, ?f2, [])"
    by (simp add: eval_simps nameSet_def fileWorld_def nameOrder_def)
  have v: "valueOf ?f2 ''name'' = Some (stringValue ''explicit'')"
    by (simp add: eval_simps nameSet_def fileWorld_def nameOrder_def)
  from C1_explicit_flag_untouched [OF p a q] p a q v show ?thesis by blast
qed

text \<open>
  Claim C2. For every setting not explicitly passed on the command line whose registered
  environment-variable name is non-empty and whose environment variable holds a non-empty
  value, the resolved value after \<open>Collate\<close> equals that environment value, overriding
  any value supplied by a configuration file (and the default).

  As stated the claim fails: the environment string goes through the conversion of the
  declared kind, and a string that the conversion rejects is not the resolved value.
  With \<open>COUNT=abc\<close> for the Int setting \<open>count\<close>, the setting holds 0 after
  \<open>Collate\<close>, which is not what \<open>abc\<close> denotes; when the loop over the
  environment meets \<open>count\<close> before \<open>host\<close>, whose variable converts,
  \<open>Collate\<close> even returns \<open>nil\<close>.
\<close>

theorem C2_env_value_counterexample:
  "''count'' \<notin> actual hostSet \<and>
   envNames hostSet ''count'' = Some ''COUNT'' \<and>
   Getenv envWorld ''COUNT'' = ''abc'' \<and>
   returned (Collate envWorld decimalConv [''count'', ''host''] hostSet) = Some None \<and>
   resolved (Collate envWorld decimalConv [''count'', ''host''] hostSet) ''count''
     = Some (intValue 0) \<and>
   \<not> denotes decimalConv ''abc'' (intValue 0)"
  by (simp add: eval_simps conv_simps hostSet_def envWorld_def denotes_def)

text \<open>
  Claim C2, amended: for every setting not explicitly passed on the command line whose
  environment variable holds a non-empty value that the conversion of the declared kind
  accepts, the resolved value after \<open>Collate\<close> is the value that the environment string
  denotes, whatever the configuration files hold and whatever the default is.
\<close>

theorem C2_env_overrides_file:
  assumes "nm \<in> set ord" and "formal f nm = Some fl" and "nm \<notin> actual f"
    and "envNames f nm = Some envName" and "Getenv w envName = envVal" and "envVal \<noteq> []"
    and "Value_Set lib (Value fl) envVal = (v, None)"
    and "Collate w lib ord f = Ok (err, f2, lg)"
  shows "valueOf f2 nm = Some v \<and> denotes lib envVal v"
proof -
  from assms(8) obtain fm where
    files: "readFiles w lib (unVisitedFlags ord f) (configFilePaths f) (f, []) = Ok (fm, lg)"
    and env: "envLoop w lib (unVisitedFlags ord f) (fm, None) = (f2, err)"
    by (rule Collate_Ok)
  from assms(1,2,3) have unv: "nm \<in> set (unVisitedFlags ord f)"
    by (simp add: unVisitedFlags_iff)
  from readFiles_keeps [OF files] have en: "envNames fm = envNames f"
    and ck: "cellKind fm nm = cellKind f nm" by simp_all
  from ck assms(2) obtain flm where flm: "formal fm nm = Some flm"
    by (auto simp: cellKind_def)
  have same: "Value_Set lib (Value flm) envVal = Value_Set lib (Value fl) envVal"
    by (rule cellKind_Value_Set [OF ck assms(2) flm])
  have "valueOf f2 nm = Some (fst (Value_Set lib (Value flm) (Getenv w envName)))"
    using assms(4,5,6) en by (intro envLoop_value [OF env unv _ _ flm]) simp_all
  with same assms(5,7) have 1: "valueOf f2 nm = Some v" by simp
  have "Value_Set lib v envVal = Value_Set lib (Value fl) envVal"
    using Value_Set_twice [of lib "Value fl" envVal envVal] assms(7) by simp
  with assms(7) have 2: "denotes lib envVal v" by (simp add: denotes_def)
  from 1 2 show ?thesis ..
qed

theorem C2_env_overrides_file_witness:
  "\<exists>err f2 lg.
     Collate envWorld decimalConv [''count'', ''host''] hostSet = Ok (err, f2, lg) \<and>
     valueOf f2 ''host'' = Some (stringValue ''db.local'') \<and>
     denotes decimalConv ''db.local'' (stringValue ''db.local'')"
proof -
  let ?r = "Collate envWorld decimalConv [''count'', ''host''] hostSet"
  let ?f2 = "case ?r of Ok (e, f2, lg) \<Rightarrow> f2 | Abort a \<Rightarrow> hostSet"
  let ?fl = "\<lparr>Name = ''host'', Usage = ''a host'', Value = stringValue []\<rparr>"
  have 1: "''host'' \<in> set [''count'', ''host'']" by simp
  have 2: "formal hostSet ''host'' = Some ?fl" by (simp add: hostSet_def)
  have 3: "''host'' \<notin> actual hostSet" by (simp add: hostSet_def)
  have 4: "envNames hostSet ''host'' = Some ''HOST_ENV''" by (simp add: hostSet_def)
  have 5: "Getenv envWorld ''HOST_ENV'' = ''db.local''" by (simp add: envWorld_def)
  have 6: "''db.local'' \<noteq> []" by simp
  have 7: "Value_Set decimalConv (Value ?fl) ''db.local'' = (stringValue ''db.local'', None)"
    by simp
  have 8: "?r = Ok (None, ?f2, [])"
    by (simp add: eval_simps conv_simps hostSet_def envWorld_def)
  from C2_env_overrides_file [OF 1 2 3 4 5 6 7 8] 8 show ?thesis by blast
qed

text \<open>
  Claim C3. Configuration files are applied in the registration order of their path
  flags, and for every setting not explicitly set on the command line that appears in two
  files registered in order A then B (and not overridden by environment), the resolved
  value equals B's value; names not present in a file leave the setting's value
  untouched.

  The files are read in the registration order of their path flags
  (\<open>AddConfigFile_appends\<close>, \<open>readFiles_append\<close>), the entry of the last file that
  holds a name is the one that sets it last (\<open>last_file_wins\<close>), and a file without the
  name leaves the value alone (\<open>processEntries_other\<close>). For a String or a Bool setting
  the value is then the one in B (\<open>last_file_wins_String\<close>, \<open>last_file_wins_Bool\<close>).
  For a Float64 setting the code misses it: the number in B is formatted with \<open>%f\<close>,
  six digits after the point, before \<open>Set\<close> reads it back. With \<open>half.json\<close> first
  and \<open>tiny.json\<close> second, \<open>name\<close> resolves to the string in \<open>tiny.json\<close>, and
  \<open>ratio\<close> to 0, which is the value in neither file; \<open>half.json\<close> alone gives
  \<open>0.5\<close>.
\<close>

theorem C3_last_file_float_truncated:
  "Unmarshal ratioWorld ''half.json''
     = Inr [(''ratio'', JNumber (1 / 2)), (''name'', JString ''from-a'')] \<and>
   Unmarshal ratioWorld ''tiny.json''
     = Inr [(''ratio'', JNumber (1 / 2097152)), (''name'', JString ''from-b'')] \<and>
   returned (run ratioWorld decimalConv ratioOrder ratioDecls
               [''-first=half.json'', ''-second=tiny.json'']) = Some None \<and>
   resolved (run ratioWorld decimalConv ratioOrder ratioDecls
               [''-first=half.json'', ''-second=tiny.json'']) ''name''
     = Some (stringValue ''from-b'') \<and>
   resolved (run ratioWorld decimalConv ratioOrder ratioDecls
               [''-first=half.json'', ''-second=tiny.json'']) ''ratio''
     = Some (float64Value (Finite 0)) \<and>
   resolved (run ratioWorld decimalConv ratioOrder ratioDecls [''-first=half.json'']) ''ratio''
     = Some (float64Value (Finite (1 / 2)))"
  by (simp add: eval_simps conv_simps fmt_simps ratioWorld_def ratioDecls_def ratioOrder_def)

text \<open>
  Claim C4. For every setting not explicitly passed on the command line, with no matching
  key in any configured file and no non-empty environment value, the resolved value after
  \<open>Parse\<close> equals the declared default supplied at registration. The program
  registers \<open>decls\<close> on a new set and calls \<open>Parse\<close>; \<open>d\<close> is any of its
  registrations, \<open>f1\<close> the set as \<open>flag.FlagSet.Parse\<close> leaves it, and the configured
  files are those that \<open>readConfigurationFiles\<close> decodes.
\<close>

theorem C4_default_when_no_source:
  assumes "registerAll (NewFlagfigSet pn eh) decls = Ok f" and "d \<in> set decls"
    and "FlagSet_Parse lib f arguments = Ok (f1, None)" and "declName d \<notin> actual f1"
    and "\<forall>es \<in> set (filesRead w lib (unVisitedFlags ord f1) (configFilePaths f1) f1).
           declName d \<notin> fst ` set es"
    and "\<forall>e. envNames f1 (declName d) = Some e \<longrightarrow> Getenv w e = []"
    and "Parse w lib ord f arguments = Ok (err, f2, lg)"
  shows "valueOf f2 (declName d) = Some (declDefault d)"
proof -
  let ?n = "declName d"
  from registerAll_default [OF assms(1,2)] have 0: "valueOf f ?n = Some (declDefault d)" .
  from FlagSet_Parse_keeps [OF assms(3,4)] have 1: "formal f1 ?n = formal f ?n" .
  from assms(3,7) have c: "Collate w lib ord f1 = Ok (err, f2, lg)"
    by (simp add: Parse_def)
  from c obtain fm where
    files: "readFiles w lib (unVisitedFlags ord f1) (configFilePaths f1) (f1, []) = Ok (fm, lg)"
    and env: "envLoop w lib (unVisitedFlags ord f1) (fm, None) = (f2, err)"
    by (rule Collate_Ok)
  from readFiles_absent [OF files assms(5)] have 2: "formal fm ?n = formal f1 ?n" .
  from readFiles_keeps [OF files] have "envNames fm = envNames f1" by simp
  with assms(6) have "\<forall>e. envNames fm ?n = Some e \<longrightarrow> Getenv w e = []" by simp
  with envLoop_other [OF env, of ?n] have 3: "formal f2 ?n = formal fm ?n" by simp
  from 0 1 2 3 show ?thesis by (simp add: valueOf_def)
qed

theorem C4_default_when_no_source_witness:
  "\<exists>f1 err f2 lg.
     registerAll (NewFlagfigSet ''prog'' ContinueOnError) nameDecls = Ok nameSet \<and>
     FlagSet_Parse decimalConv nameSet [''-first=other.json''] = Ok (f1, None) \<and>
     ''name'' \<notin> actual f1 \<and>
     filesRead fileWorld decimalConv (unVisitedFlags nameOrder f1) (configFilePaths f1) f1
       = [[(''other'', JString ''x'')]] \<and>
     Parse fileWorld decimalConv nameOrder nameSet [''-first=other.json''] = Ok (err, f2, lg) \<and>
     valueOf f2 ''name'' = Some (stringValue ''default'')"
proof -
  let ?args = "[''-first=other.json'']"
  let ?d = "DeclString ''name'' ''default'' [] ''a name''"
  let ?f1 = "case FlagSet_Parse decimalConv nameSet ?args of
               Ok (f1, e) \<Rightarrow> f1 | Abort a \<Rightarrow> nameSet"
  let ?r = "Parse fileWorld decimalConv nameOrder nameSet ?args"
  let ?f2 = "case ?r of Ok (e, f2, lg) \<Rightarrow> f2 | Abort a \<Rightarrow> nameSet"
  have 2: "?d \<in> set nameDecls" by (simp add: nameDecls_def)
  have 3: "FlagSet_Parse decimalConv nameSet ?args = Ok (?f1, None)"
    by (simp add: eval_simps nameSet_def)
  have 4: "declName ?d \<notin> actual ?f1"
    by (simp add: eval_simps nameSet_def)
  have fr: "filesRead fileWorld decimalConv (unVisitedFlags nameOrder ?f1)
              (configFilePaths ?f1) ?f1 = [[(''other'', JString ''x'')]]"
    by (simp add: eval_simps nameSet_def fileWorld_def nameOrder_def)
  have 5: "\<forall>es \<in> set (filesRead fileWorld decimalConv (unVisitedFlags nameOrder ?f1)
              (configFilePaths ?f1) ?f1). declName ?d \<notin> fst ` set es"
    unfolding fr by simp
  have 6: "\<forall>e. envNames ?f1 (declName ?d) = Some e \<longrightarrow> Getenv fileWorld e = []"
    by (simp add: fileWorld_def)
  have 7: "?r = Ok (None, ?f2, [])"
    by (simp add: eval_simps nameSet_def fileWorld_def nameOrder_def)
  from C4_default_when_no_source [OF nameSet_registered 2 3 4 5 6 7]
  have "valueOf ?f2 ''name'' = Some (stringValue ''default'')" by simp
  with nameSet_registered 3 4 fr 7 show ?thesis by auto
qed

text \<open>
  Claim C5. For every configuration-file value whose JSON kind mismatches the setting's
  declared kind (for example a JSON bool for a String-declared setting, or a JSON number
  for a String- or Bool-declared setting), the value is skipped with a logged warning and
  the setting retains its prior default or earlier-file value.

  As stated the claim fails: the type switch never compares the JSON kind with the
  declared kind and never logs for an entry. The file \<open>bool.json\<close> holds the JSON bool
  \<open>true\<close> for the String setting \<open>name\<close>: the setting becomes \<open>true\<close>, with no
  line logged.
\<close>

theorem C5_mismatch_counterexample:
  "flagTypes nameSet ''name'' = Some stringType \<and>
   valueOf nameSet ''name'' = Some (stringValue ''default'') \<and>
   Unmarshal fileWorld ''bool.json'' = Inr [(''name'', JBool True)] \<and>
   returned (Parse fileWorld decimalConv nameOrder nameSet [''-first=bool.json'']) = Some None \<and>
   resolved (Parse fileWorld decimalConv nameOrder nameSet [''-first=bool.json'']) ''name''
     = Some (stringValue ''true'') \<and>
   logged (Parse fileWorld decimalConv nameOrder nameSet [''-first=bool.json'']) = Some []"
  by (simp add: eval_simps nameSet_def fileWorld_def nameOrder_def)

text \<open>
  Claim C5, amended: a JSON number for a String- or Bool-declared setting is skipped,
  without a log line, and the setting retains its prior default or earlier-file value; a
  JSON bool or a JSON string is not compared with the declared kind: its text is handed
  to \<open>Set\<close> of the flag, so that a JSON bool for a String-declared setting sets it to
  \<open>true\<close> or \<open>false\<close>; the entries of a file that decodes write no log line.
\<close>

theorem C5_number_skipped_text_set:
  "(key \<in> set unv \<and> (flagType f key = stringType \<or> flagType f key = boolType)
    \<longrightarrow> processEntry lib unv f (key, JNumber n) = Ok f) \<and>
   (key \<in> set unv \<and> formal f key = Some fl \<and> (jv = JBool b \<or> jv = JString s) \<and>
    fileText (flagType f key) jv = Some txt
    \<longrightarrow> processEntry lib unv f (key, jv) = Ok (setDropErr lib f key txt) \<and>
        valueOf (setDropErr lib f key txt) key = Some (fst (Value_Set lib (Value fl) txt))) \<and>
   (key \<in> set unv \<and> formal f key = Some fl \<and> Value fl = stringValue x
    \<longrightarrow> (\<exists>f'. processEntry lib unv f (key, JBool b) = Ok f' \<and>
              valueOf f' key = Some (stringValue (if b then ''true'' else ''false'')))) \<and>
   (deref f p \<noteq> [] \<and> ReadFile w (deref f p) = Inr dat \<and> Unmarshal w dat = Inr es \<and>
    processEntries lib unv f es = Ok f1
    \<longrightarrow> readFiles w lib unv (p # ps) (f, lg) = readFiles w lib unv ps (f1, lg))"
proof (intro conjI impI)
  assume "key \<in> set unv \<and> (flagType f key = stringType \<or> flagType f key = boolType)"
  then show "processEntry lib unv f (key, JNumber n) = Ok f"
    by (auto simp: Let_def intType_def stringType_def boolType_def floatType_def
          int64Type_def uintType_def uint64Type_def durationType_def)
next
  assume a: "key \<in> set unv \<and> formal f key = Some fl \<and> (jv = JBool b \<or> jv = JString s) \<and>
    fileText (flagType f key) jv = Some txt"
  then show "processEntry lib unv f (key, jv) = Ok (setDropErr lib f key txt)"
    by (auto simp: processEntry_unvisited simp del: processEntry.simps)
  from a show "valueOf (setDropErr lib f key txt) key
                 = Some (fst (Value_Set lib (Value fl) txt))"
    by (simp add: setDropErr_value)
next
  assume a: "key \<in> set unv \<and> formal f key = Some fl \<and> Value fl = stringValue x"
  let ?t = "if b then ''true'' else ''false''"
  from a have "processEntry lib unv f (key, JBool b) = Ok (setDropErr lib f key ?t)"
    by (auto simp: processEntry_unvisited simp del: processEntry.simps)
  moreover from a have "valueOf (setDropErr lib f key ?t) key = Some (stringValue ?t)"
    by (simp add: setDropErr_value)
  ultimately show "\<exists>f'. processEntry lib unv f (key, JBool b) = Ok f' \<and>
      valueOf f' key = Some (stringValue (if b then ''true'' else ''false''))"
    by blast
next
  assume "deref f p \<noteq> [] \<and> ReadFile w (deref f p) = Inr dat \<and> Unmarshal w dat = Inr es \<and>
    processEntries lib unv f es = Ok f1"
  then show "readFiles w lib unv (p # ps) (f, lg) = readFiles w lib unv ps (f1, lg)"
    by (simp add: Let_def)
qed

theorem C5_number_skipped_text_set_witness:
  "\<exists>f f1.
     flagType nameSet ''name'' = stringType \<and>
     processEntry decimalConv [''name''] nameSet (''name'', JNumber 5) = Ok nameSet \<and>
     processEntry decimalConv [''name''] nameSet (''name'', JString ''from-a'')
       = Ok (setDropErr decimalConv nameSet ''name'' ''from-a'') \<and>
     valueOf (setDropErr decimalConv nameSet ''name'' ''from-a'') ''name''
       = Some (stringValue ''from-a'') \<and>
     (\<exists>f'. processEntry decimalConv [''name''] nameSet (''name'', JBool True) = Ok f' \<and>
           valueOf f' ''name'' = Some (stringValue ''true'')) \<and>
     FlagSet_Parse decimalConv nameSet [''-first=num.json''] = Ok (f, None) \<and>
     deref f ''first'' = ''num.json'' \<and>
     Unmarshal fileWorld ''num.json'' = Inr [(''name'', JNumber 5)] \<and>
     processEntries decimalConv [''name''] f [(''name'', JNumber 5)] = Ok f1 \<and>
     readFiles fileWorld decimalConv [''name''] [''first'', ''second''] (f, [])
       = readFiles fileWorld decimalConv [''name''] [''second''] (f1, [])"
proof -
  let ?fl = "\<lparr>Name = ''name'', Usage = ''a name'', Value = stringValue ''default''\<rparr>"
  let ?f = "case FlagSet_Parse decimalConv nameSet [''-first=num.json''] of
              Ok (f1, e) \<Rightarrow> f1 | Abort a \<Rightarrow> nameSet"
  let ?f1 = "case processEntries decimalConv [''name''] ?f [(''name'', JNumber 5)] of
               Ok g \<Rightarrow> g | Abort a \<Rightarrow> nameSet"
  note T = C5_number_skipped_text_set
    [where lib = decimalConv and unv = "[''name'']" and key = "''name''" and w = fileWorld]
  have ft: "flagType nameSet ''name'' = stringType"
    by (simp add: flagType_def nameSet_def)
  have fl: "formal nameSet ''name'' = Some ?fl" by (simp add: nameSet_def)
  have h1: "''name'' \<in> set [''name''] \<and>
    (flagType nameSet ''name'' = stringType \<or> flagType nameSet ''name'' = boolType)"
    using ft by simp
  from T [where f = nameSet and n = 5, THEN conjunct1, THEN mp, OF h1]
  have c1: "processEntry decimalConv [''name''] nameSet (''name'', JNumber 5) = Ok nameSet" .
  have h2: "''name'' \<in> set [''name''] \<and> formal nameSet ''name'' = Some ?fl \<and>
    (JString ''from-a'' = JBool True \<or> JString ''from-a'' = JString ''from-a'') \<and>
    fileText (flagType nameSet ''name'') (JString ''from-a'') = Some ''from-a''"
    using fl by simp
  from T [where f = nameSet and fl = ?fl and jv = "JString ''from-a''" and b = True
      and s = "''from-a''" and ?txt = "''from-a''",
      THEN conjunct2, THEN conjunct1, THEN mp, OF h2]
  have c2: "processEntry decimalConv [''name''] nameSet (''name'', JString ''from-a'')
              = Ok (setDropErr decimalConv nameSet ''name'' ''from-a'')"
    and c2': "valueOf (setDropErr decimalConv nameSet ''name'' ''from-a'') ''name''
              = Some (stringValue ''from-a'')"
    by simp_all
  have h3: "''name'' \<in> set [''name''] \<and> formal nameSet ''name'' = Some ?fl \<and>
    Value ?fl = stringValue ''default''"
    using fl by simp
  from T [where f = nameSet and fl = ?fl and x = "''default''" and b = True,
      THEN conjunct2, THEN conjunct2, THEN conjunct1, THEN mp, OF h3]
  have c3: "\<exists>f'. processEntry decimalConv [''name''] nameSet (''name'', JBool True) = Ok f' \<and>
              valueOf f' ''name'' = Some (stringValue ''true'')"
    by simp
  have p: "FlagSet_Parse decimalConv nameSet [''-first=num.json''] = Ok (?f, None)"
    by (simp add: eval_simps nameSet_def)
  have dr: "deref ?f ''first'' = ''num.json''"
    by (simp add: eval_simps nameSet_def)
  have um: "Unmarshal fileWorld ''num.json'' = Inr [(''name'', JNumber 5)]"
    and rd: "ReadFile fileWorld ''num.json'' = Inr ''num.json''"
    by (simp_all add: fileWorld_def)
  have pe: "processEntries decimalConv [''name''] ?f [(''name'', JNumber 5)] = Ok ?f1"
    by (simp add: eval_simps nameSet_def)
  have h4: "deref ?f ''first'' \<noteq> [] \<and> ReadFile fileWorld (deref ?f ''first'') = Inr ''num.json'' \<and>
    Unmarshal fileWorld ''num.json'' = Inr [(''name'', JNumber 5)] \<and>
    processEntries decimalConv [''name''] ?f [(''name'', JNumber 5)] = Ok ?f1"
    using rd um pe unfolding dr by simp
  from T [where f = ?f and p = "''first''" and dat = "''num.json''"
      and es = "[(''name'', JNumber 5)]" and ?f1.0 = ?f1 and ps = "[''second'']" and lg = "[]",
      THEN conjunct2, THEN conjunct2, THEN conjunct2, THEN mp, OF h4]
  have c4: "readFiles fileWorld decimalConv [''name''] [''first'', ''second''] (?f, [])
              = readFiles fileWorld decimalConv [''name''] [''second''] (?f1, [])" .
  from ft c1 c2 c2' c3 p dr um pe c4 show ?thesis by blast
qed

text \<open>
  Claim C6. During one resolution pass: a configured file that fails JSON decoding is
  non-fatal (a log line is produced, that file's contents are skipped entirely, and
  remaining files are processed); a non-empty file path that cannot be read is fatal and
  aborts resolution; and a JSON value of unsupported type (object, array, or null) for a
  registered not-explicitly-set setting is fatal and aborts resolution.

  In each conjunct \<open>c\<close> is a path flag reached after the files of \<open>ps\<close> were read
  and \<open>qs\<close> are the path flags after it. First: the loop goes on with \<open>qs\<close> from the
  same flag set, one line added to the log. Second: \<open>Collate\<close> panics with the error
  of \<open>ReadFile\<close>. Third: \<open>Collate\<close> ends in \<open>log.Fatalf\<close>.
\<close>

theorem C6_file_failures:
  "(readFiles w lib unv ps (f, lg) = Ok (f1, lg1) \<and> deref f1 c \<noteq> [] \<and>
    ReadFile w (deref f1 c) = Inr dat \<and> Unmarshal w dat = Inl e
    \<longrightarrow> readFiles w lib unv (ps @ c # qs) (f, lg)
          = readFiles w lib unv qs (f1, lg1 @ [decodeLogLine (deref f1 c) e])) \<and>
   (configFilePaths f = ps @ c # qs \<and>
    readFiles w lib (unVisitedFlags ord f) ps (f, []) = Ok (f1, lg1) \<and> deref f1 c \<noteq> [] \<and>
    ReadFile w (deref f1 c) = Inl e
    \<longrightarrow> Collate w lib ord f = Abort (panic e)) \<and>
   (configFilePaths f = ps @ c # qs \<and>
    readFiles w lib (unVisitedFlags ord f) ps (f, []) = Ok (f1, lg1) \<and> deref f1 c \<noteq> [] \<and>
    ReadFile w (deref f1 c) = Inr dat \<and> Unmarshal w dat = Inr es \<and>
    (k, v) \<in> set es \<and> k \<in> set ord \<and> formal f k \<noteq> None \<and> k \<notin> actual f \<and> unsupported v
    \<longrightarrow> Collate w lib ord f = Abort (logFatal ''Unsupported Config file type''))"
proof (intro conjI impI)
  assume "readFiles w lib unv ps (f, lg) = Ok (f1, lg1) \<and> deref f1 c \<noteq> [] \<and>
    ReadFile w (deref f1 c) = Inr dat \<and> Unmarshal w dat = Inl e"
  then show "readFiles w lib unv (ps @ c # qs) (f, lg)
      = readFiles w lib unv qs (f1, lg1 @ [decodeLogLine (deref f1 c) e])"
    by (simp add: readFiles_append Let_def)
next
  assume a: "configFilePaths f = ps @ c # qs \<and>
    readFiles w lib (unVisitedFlags ord f) ps (f, []) = Ok (f1, lg1) \<and> deref f1 c \<noteq> [] \<and>
    ReadFile w (deref f1 c) = Inl e"
  then have "readFiles w lib (unVisitedFlags ord f) (configFilePaths f) (f, [])
      = Abort (panic e)"
    by (simp add: readFiles_append Let_def)
  then show "Collate w lib ord f = Abort (panic e)" by (rule Collate_abort)
next
  assume a: "configFilePaths f = ps @ c # qs \<and>
    readFiles w lib (unVisitedFlags ord f) ps (f, []) = Ok (f1, lg1) \<and> deref f1 c \<noteq> [] \<and>
    ReadFile w (deref f1 c) = Inr dat \<and> Unmarshal w dat = Inr es \<and>
    (k, v) \<in> set es \<and> k \<in> set ord \<and> formal f k \<noteq> None \<and> k \<notin> actual f \<and> unsupported v"
  let ?unv = "unVisitedFlags ord f"
  from a have "k \<in> set ?unv" by (simp add: unVisitedFlags_iff)
  with a have "processEntries lib ?unv f1 es = Abort (logFatal ''Unsupported Config file type'')"
    using processEntries_unsupported [of k v es ?unv lib f1] by simp
  with a have "readFiles w lib ?unv (configFilePaths f) (f, [])
      = Abort (logFatal ''Unsupported Config file type'')"
    by (simp add: readFiles_append Let_def)
  then show "Collate w lib ord f = Abort (logFatal ''Unsupported Config file type'')"
    by (rule Collate_abort)
qed

theorem C6_file_failures_witness:
  "\<exists>f g h.
     FlagSet_Parse decimalConv nameSet [''-first=bad.json'', ''-second=b.json''] = Ok (f, None) \<and>
     deref f ''first'' = ''bad.json'' \<and>
     Unmarshal fileWorld ''bad.json'' = Inl ''invalid character'' \<and>
     readFiles fileWorld decimalConv [''name''] ([] @ ''first'' # [''second'']) (f, [])
       = readFiles fileWorld decimalConv [''name''] [''second'']
           (f, [] @ [decodeLogLine ''bad.json'' ''invalid character'']) \<and>
     resolved (Collate fileWorld decimalConv nameOrder f) ''name''
       = Some (stringValue ''from-b'') \<and>
     logged (Collate fileWorld decimalConv nameOrder f)
       = Some [decodeLogLine ''bad.json'' ''invalid character''] \<and>
     FlagSet_Parse decimalConv nameSet [''-first=missing.json''] = Ok (g, None) \<and>
     Collate fileWorld decimalConv nameOrder g
       = Abort (panic ''open missing.json: no such file or directory'') \<and>
     FlagSet_Parse decimalConv nameSet [''-first=nested.json''] = Ok (h, None) \<and>
     Unmarshal fileWorld ''nested.json'' = Inr [(''name'', JObject)] \<and>
     Collate fileWorld decimalConv nameOrder h
       = Abort (logFatal ''Unsupported Config file type'')"
proof -
  let ?f = "case FlagSet_Parse decimalConv nameSet [''-first=bad.json'', ''-second=b.json''] of
              Ok (f1, e) \<Rightarrow> f1 | Abort a \<Rightarrow> nameSet"
  let ?g = "case FlagSet_Parse decimalConv nameSet [''-first=missing.json''] of
              Ok (f1, e) \<Rightarrow> f1 | Abort a \<Rightarrow> nameSet"
  let ?h = "case FlagSet_Parse decimalConv nameSet [''-first=nested.json''] of
              Ok (f1, e) \<Rightarrow> f1 | Abort a \<Rightarrow> nameSet"
  let ?miss = "''open missing.json: no such file or directory''"
  note T = C6_file_failures [where w = fileWorld and lib = decimalConv and ord = nameOrder
      and ps = "[]" and c = "''first''" and qs = "[''second'']" and ?lg1.0 = "[]"]
  have pf: "FlagSet_Parse decimalConv nameSet [''-first=bad.json'', ''-second=b.json'']
              = Ok (?f, None)"
    and pg: "FlagSet_Parse decimalConv nameSet [''-first=missing.json''] = Ok (?g, None)"
    and ph: "FlagSet_Parse decimalConv nameSet [''-first=nested.json''] = Ok (?h, None)"
    by (simp_all add: eval_simps nameSet_def)
  have df: "deref ?f ''first'' = ''bad.json''"
    and dg: "deref ?g ''first'' = ''missing.json''"
    and dh: "deref ?h ''first'' = ''nested.json''"
    by (simp_all add: eval_simps nameSet_def)
  have w1: "ReadFile fileWorld ''bad.json'' = Inr ''bad.json''"
    "Unmarshal fileWorld ''bad.json'' = Inl ''invalid character''"
    "ReadFile fileWorld ''missing.json'' = Inl ?miss"
    "ReadFile fileWorld ''nested.json'' = Inr ''nested.json''"
    "Unmarshal fileWorld ''nested.json'' = Inr [(''name'', JObject)]"
    by (simp_all add: fileWorld_def)
  have h1: "readFiles fileWorld decimalConv [''name''] [] (?f, []) = Ok (?f, []) \<and>
    deref ?f ''first'' \<noteq> [] \<and> ReadFile fileWorld (deref ?f ''first'') = Inr ''bad.json'' \<and>
    Unmarshal fileWorld ''bad.json'' = Inl ''invalid character''"
    unfolding df using w1 by simp
  from T [where unv = "[''name'']" and f = ?f and lg = "[]" and ?f1.0 = ?f
      and dat = "''bad.json''" and e = "''invalid character''",
      THEN conjunct1, THEN mp, OF h1]
  have c1: "readFiles fileWorld decimalConv [''name''] ([] @ ''first'' # [''second'']) (?f, [])
      = readFiles fileWorld decimalConv [''name''] [''second'']
          (?f, [] @ [decodeLogLine ''bad.json'' ''invalid character''])"
    unfolding df .
  have r1: "resolved (Collate fileWorld decimalConv nameOrder ?f) ''name''
      = Some (stringValue ''from-b'')"
    and l1: "logged (Collate fileWorld decimalConv nameOrder ?f)
      = Some [decodeLogLine ''bad.json'' ''invalid character'']"
    by (simp_all add: eval_simps nameSet_def fileWorld_def nameOrder_def)
  have h2: "configFilePaths ?g = [] @ ''first'' # [''second''] \<and>
    readFiles fileWorld decimalConv (unVisitedFlags nameOrder ?g) [] (?g, []) = Ok (?g, []) \<and>
    deref ?g ''first'' \<noteq> [] \<and> ReadFile fileWorld (deref ?g ''first'') = Inl ?miss"
    unfolding dg using w1 by (simp add: eval_simps nameSet_def)
  from T [where f = ?g and ?f1.0 = ?g and e = ?miss,
      THEN conjunct2, THEN conjunct1, THEN mp, OF h2]
  have c2: "Collate fileWorld decimalConv nameOrder ?g = Abort (panic ?miss)" .
  have h3: "configFilePaths ?h = [] @ ''first'' # [''second''] \<and>
    readFiles fileWorld decimalConv (unVisitedFlags nameOrder ?h) [] (?h, []) = Ok (?h, []) \<and>
    deref ?h ''first'' \<noteq> [] \<and> ReadFile fileWorld (deref ?h ''first'') = Inr ''nested.json'' \<and>
    Unmarshal fileWorld ''nested.json'' = Inr [(''name'', JObject)] \<and>
    (''name'', JObject) \<in> set [(''name'', JObject)] \<and> ''name'' \<in> set nameOrder \<and>
    formal ?h ''name'' \<noteq> None \<and> ''name'' \<notin> actual ?h \<and> unsupported JObject"
    unfolding dh using w1 by (simp add: eval_simps nameSet_def nameOrder_def)
  from T [where f = ?h and ?f1.0 = ?h and dat = "''nested.json''"
      and es = "[(''name'', JObject)]" and k = "''name''" and v = JObject,
      THEN conjunct2, THEN conjunct2, THEN mp, OF h3]
  have c3: "Collate fileWorld decimalConv nameOrder ?h
      = Abort (logFatal ''Unsupported Config file type'')" .
  from pf df w1 c1 r1 l1 pg c2 ph c3 show ?thesis by blast
qed

text \<open>
  Claim C7. For every Duration-declared setting not explicitly set on the command line
  whose configuration-file value is a JSON number, the number is interpreted as
  nanoseconds and formatted with an explicit nanosecond unit suffix before being set; in
  particular, a file value of 30000000000 resolves the setting to a duration equal to 30
  seconds.

  First conjunct: the text handed to \<open>Set\<close> is the integer nearest to the number,
  followed by \<open>ns\<close>. Second: the cell then holds what \<open>time.ParseDuration\<close> returns
  for that text. Third: given that \<open>time.ParseDuration\<close> reads \<open>30000000000ns\<close> as
  30 seconds, the number 30000000000 sets the cell to 30 seconds.
\<close>

theorem C7_duration_number_as_nanoseconds:
  "(key \<in> set unv \<and> flagType f key = durationType
    \<longrightarrow> processEntry lib unv f (key, JNumber v)
          = Ok (setDropErr lib f key (Sprintf_0f v @ ''ns''))) \<and>
   (formal f key = Some fl \<and> Value fl = durationValue d
    \<longrightarrow> valueOf (setDropErr lib f key (Sprintf_0f v @ ''ns'')) key
          = Some (durationValue (fst (ParseDuration lib (Sprintf_0f v @ ''ns''))))) \<and>
   (key \<in> set unv \<and> flagType f key = durationType \<and> formal f key = Some fl \<and>
    Value fl = durationValue d \<and> ParseDuration lib ''30000000000ns'' = (30 * Second, None)
    \<longrightarrow> (\<exists>f'. processEntry lib unv f (key, JNumber 30000000000) = Ok f' \<and>
              valueOf f' key = Some (durationValue (30 * Second))))"
proof (intro conjI impI)
  assume "key \<in> set unv \<and> flagType f key = durationType"
  then show "processEntry lib unv f (key, JNumber v)
      = Ok (setDropErr lib f key (Sprintf_0f v @ ''ns''))"
    by (simp add: Let_def TrimSpace_duration intType_def floatType_def int64Type_def
          uintType_def uint64Type_def durationType_def)
next
  assume "formal f key = Some fl \<and> Value fl = durationValue d"
  then show "valueOf (setDropErr lib f key (Sprintf_0f v @ ''ns'')) key
      = Some (durationValue (fst (ParseDuration lib (Sprintf_0f v @ ''ns''))))"
    by (simp add: setDropErr_value split: prod.splits)
next
  assume a: "key \<in> set unv \<and> flagType f key = durationType \<and> formal f key = Some fl \<and>
    Value fl = durationValue d \<and> ParseDuration lib ''30000000000ns'' = (30 * Second, None)"
  have t: "Sprintf_0f 30000000000 @ ''ns'' = ''30000000000ns''"
    by (simp add: fmt_simps)
  from a have "processEntry lib unv f (key, JNumber 30000000000)
      = Ok (setDropErr lib f key ''30000000000ns'')"
    using t by (simp add: Let_def TrimSpace_duration intType_def floatType_def int64Type_def
          uintType_def uint64Type_def durationType_def)
  moreover from a have "valueOf (setDropErr lib f key ''30000000000ns'') key
      = Some (durationValue (30 * Second))"
    by (simp add: setDropErr_value)
  ultimately show "\<exists>f'. processEntry lib unv f (key, JNumber 30000000000) = Ok f' \<and>
      valueOf f' key = Some (durationValue (30 * Second))"
    by blast
qed

theorem C7_duration_number_as_nanoseconds_witness:
  "processEntry decimalConv [''timeout''] timeoutSet (''timeout'', JNumber (5 / 2))
     = Ok (setDropErr decimalConv timeoutSet ''timeout'' ''2ns'') \<and>
   valueOf (setDropErr decimalConv timeoutSet ''timeout'' ''2ns'') ''timeout''
     = Some (durationValue 2) \<and>
   ParseDuration decimalConv ''30000000000ns'' = (30 * Second, None) \<and>
   (\<exists>f'. processEntry decimalConv [''timeout''] timeoutSet (''timeout'', JNumber 30000000000)
            = Ok f' \<and>
          valueOf f' ''timeout'' = Some (durationValue (30 * Second))) \<and>
   resolved (run numberWorld decimalConv [''timeout'', ''ratio'', ''config''] numberDecls
               [''-config=numbers.json'']) ''timeout'' = Some (durationValue (30 * Second))"
proof -
  let ?fl = "\<lparr>Name = ''timeout'', Usage = ''a duration'', Value = durationValue 1\<rparr>"
  note T = C7_duration_number_as_nanoseconds
    [where lib = decimalConv and unv = "[''timeout'']" and key = "''timeout''"
       and f = timeoutSet and fl = ?fl and d = 1]
  have t: "Sprintf_0f (5 / 2) @ ''ns'' = ''2ns''" by (simp add: fmt_simps)
  have pd: "ParseDuration decimalConv ''30000000000ns'' = (30 * Second, None)"
    "ParseDuration decimalConv ''2ns'' = (2, None)"
    by (simp_all add: conv_simps)
  have h1: "''timeout'' \<in> set [''timeout''] \<and> flagType timeoutSet ''timeout'' = durationType"
    by (simp add: flagType_def timeoutSet_def)
  have h2: "formal timeoutSet ''timeout'' = Some ?fl \<and> Value ?fl = durationValue 1"
    by (simp add: timeoutSet_def)
  have h3: "''timeout'' \<in> set [''timeout''] \<and> flagType timeoutSet ''timeout'' = durationType \<and>
    formal timeoutSet ''timeout'' = Some ?fl \<and> Value ?fl = durationValue 1 \<and>
    ParseDuration decimalConv ''30000000000ns'' = (30 * Second, None)"
    using h1 h2 pd by simp
  from T [where v = "5 / 2", THEN conjunct1, THEN mp, OF h1]
  have c1: "processEntry decimalConv [''timeout''] timeoutSet (''timeout'', JNumber (5 / 2))
      = Ok (setDropErr decimalConv timeoutSet ''timeout'' ''2ns'')"
    unfolding t .
  from T [where v = "5 / 2", THEN conjunct2, THEN conjunct1, THEN mp, OF h2]
  have c2: "valueOf (setDropErr decimalConv timeoutSet ''timeout'' ''2ns'') ''timeout''
      = Some (durationValue 2)"
    unfolding t pd by simp
  from T [THEN conjunct2, THEN conjunct2, THEN mp, OF h3]
  have c3: "\<exists>f'. processEntry decimalConv [''timeout''] timeoutSet
                    (''timeout'', JNumber 30000000000) = Ok f' \<and>
                  valueOf f' ''timeout'' = Some (durationValue (30 * Second))" .
  have c4: "resolved (run numberWorld decimalConv [''timeout'', ''ratio'', ''config'']
      numberDecls [''-config=numbers.json'']) ''timeout'' = Some (durationValue (30 * Second))"
    by (simp add: eval_simps conv_simps fmt_simps numberWorld_def numberDecls_def)
  from c1 c2 pd(1) c3 c4 show ?thesis by blast
qed

text \<open>
  Claim C8. For every Float64-declared setting present (as a JSON number) in exactly one
  configuration file, not explicitly passed on the command line and not overridden by
  environment, the resolved value equals the file's numeric value exactly: the number is
  formatted as a full-precision decimal string, so the coercion loses no precision.

  The code formats the number with \<open>%f\<close>, six digits after the point. The file value
  \<open>2 ^ -21\<close> becomes the text \<open>0.000000\<close>, and the setting resolves to 0.
\<close>

theorem C8_float_six_decimals:
  "Unmarshal numberWorld ''numbers.json''
     = Inr [(''timeout'', JNumber 30000000000), (''ratio'', JNumber (1 / 2097152))] \<and>
   Sprintf_f (1 / 2097152) = ''0.000000'' \<and>
   returned (run numberWorld decimalConv [''timeout'', ''ratio'', ''config''] numberDecls
               [''-config=numbers.json'']) = Some None \<and>
   resolved (run numberWorld decimalConv [''timeout'', ''ratio'', ''config''] numberDecls
               [''-config=numbers.json'']) ''ratio'' = Some (float64Value (Finite 0))"
  by (simp add: eval_simps conv_simps fmt_simps numberWorld_def numberDecls_def)

text \<open>
  Claim C9. For every registry instance, declaring a second setting under a name that is
  already registered raises no error: the later registration silently replaces the
  earlier registration's metadata and registration completes normally.

  As stated the claim fails: every registration ends in \<open>flag.FlagSet.Var\<close>, which
  panics on a name that is already defined.
\<close>

theorem C9_duplicate_counterexample:
  "registerAll (NewFlagfigSet ''prog'' ContinueOnError)
     [DeclString ''host'' ''a'' ''HOST_A'' ''first registration'',
      DeclString ''host'' ''b'' ''HOST_B'' ''second registration'']
     = Abort (panic ''flag redefined: host'')"
  by (simp add: eval_simps)

text \<open>
  Claim C9, amended: for every registry instance, declaring a setting or a configuration
  file under a name that is already registered panics in the underlying flag mechanism
  (\<open>flag redefined\<close>), and the registration does not complete. First conjunct: the
  registrations of \<open>flagfig.go\<close>. Second conjunct: \<open>String\<close> of the earlier
  \<open>flagfig/flagfig.go\<close>.
\<close>

theorem C9_duplicate_panics:
  "(formal f (declName d) \<noteq> None \<longrightarrow> (\<exists>msg. register f d = Abort (panic msg))) \<and>
   (formal_old g nm \<noteq> None
    \<longrightarrow> (\<exists>msg. String_old g nm defaultValue envName usage = Abort (panic msg)))"
proof (intro conjI impI)
  assume "formal f (declName d) \<noteq> None"
  then show "\<exists>msg. register f d = Abort (panic msg)"
    by (cases d)
       (auto simp: Bool_def String_def Int_flag_def Float64_def Int64_def Uint_def Uint64_def
          Duration_def AddConfigFile_def FlagSet_Var_def)
next
  assume "formal_old g nm \<noteq> None"
  then show "\<exists>msg. String_old g nm defaultValue envName usage = Abort (panic msg)"
    by (auto simp: String_old_def Let_def)
qed

theorem C9_duplicate_panics_witness:
  "formal nameSet (declName (DeclString ''name'' ''other'' ''NAME'' ''again'')) \<noteq> None \<and>
   register nameSet (DeclString ''name'' ''other'' ''NAME'' ''again'')
     = Abort (panic ''flag redefined: name'') \<and>
   (\<exists>g. String_old \<lparr>formal_old = Map.empty, stringValues = Map.empty,
                       envNames_old = Map.empty\<rparr> ''name'' ''default'' ''NAME'' ''a name''
          = Ok g \<and>
        formal_old g ''name'' \<noteq> None \<and>
        String_old g ''name'' ''other'' ''OTHER'' ''again''
          = Abort (panic ''flag redefined: name''))"
proof -
  let ?d = "DeclString ''name'' ''other'' ''NAME'' ''again''"
  let ?e = "\<lparr>formal_old = Map.empty, stringValues = Map.empty, envNames_old = Map.empty\<rparr>"
  let ?g = "case String_old ?e ''name'' ''default'' ''NAME'' ''a name'' of
              Ok g \<Rightarrow> g | Abort a \<Rightarrow> ?e"
  have h: "formal nameSet (declName ?d) \<noteq> None" by (simp add: nameSet_def)
  have e: "register nameSet ?d = Abort (panic ''flag redefined: name'')"
    by (simp add: eval_simps nameSet_def)
  have g: "String_old ?e ''name'' ''default'' ''NAME'' ''a name'' = Ok ?g"
    by (simp add: String_old_def Let_def)
  have h': "formal_old ?g ''name'' \<noteq> None"
    by (simp add: String_old_def Let_def)
  have e': "String_old ?g ''name'' ''other'' ''OTHER'' ''again''
      = Abort (panic ''flag redefined: name'')"
    by (simp add: String_old_def Let_def)
  note T = C9_duplicate_panics [where f = nameSet and d = ?d and g = ?g and nm = "''name''"
      and defaultValue = "''other''" and envName = "''OTHER''" and usage = "''again''"]
  from T [THEN conjunct1, THEN mp, OF h]
  have "\<exists>msg. register nameSet ?d = Abort (panic msg)" .
  moreover from T [THEN conjunct2, THEN mp, OF h']
  have "\<exists>msg. String_old ?g ''name'' ''other'' ''OTHER'' ''again'' = Abort (panic msg)" .
  ultimately show ?thesis using h e g h' e' by blast
qed

text \<open>
  Claim C10. If exactly one not-explicitly-set setting has a non-empty environment value
  and that value fails the declared type's string-to-value conversion, \<open>Parse\<close> returns
  a non-nil error from \<open>Collate\<close>; whereas a configuration-file value that fails
  conversion never causes \<open>Parse\<close> or \<open>Collate\<close> to return an error: every error
  from setting a file-derived value is discarded.

  First conjunct: the flags parse to \<open>f\<close>, \<open>nm\<close> is the one unvisited setting with a
  non-empty environment value, its conversion fails with \<open>er\<close>, and the files are read
  without a panic or an exit; then \<open>Parse\<close> returns \<open>er\<close>. Second conjunct: when no
  unvisited setting has a non-empty environment value, \<open>Parse\<close> returns no error,
  whatever the files hold and however their values convert. Third conjunct:
  \<open>readConfigurationFiles\<close> returns \<open>nil\<close> whenever it returns.
\<close>

theorem C10_env_error_returned_file_error_dropped:
  "(FlagSet_Parse lib f0 arguments = Ok (f, None) \<and> nm \<in> set ord \<and> formal f nm = Some fl \<and>
    nm \<notin> actual f \<and> envNames f nm = Some e \<and> Getenv w e \<noteq> [] \<and>
    snd (Value_Set lib (Value fl) (Getenv w e)) = Some er \<and>
    (\<forall>m \<in> set (unVisitedFlags ord f). m \<noteq> nm \<longrightarrow>
       (\<forall>e'. envNames f m = Some e' \<longrightarrow> Getenv w e' = [])) \<and>
    readConfigurationFiles w lib (unVisitedFlags ord f) f = Ok (None, fm, lg)
    \<longrightarrow> returned (Parse w lib ord f0 arguments) = Some (Some er)) \<and>
   (FlagSet_Parse lib f0 arguments = Ok (f, None) \<and>
    (\<forall>m \<in> set (unVisitedFlags ord f). \<forall>e'. envNames f m = Some e' \<longrightarrow> Getenv w e' = [])
    \<longrightarrow> returned (Parse w lib ord f0 arguments) \<noteq> Some (Some x)) \<and>
   (readConfigurationFiles w' lib' unv' f' = Ok (err', f'', lg') \<longrightarrow> err' = None)"
proof (intro conjI impI)
  assume a: "FlagSet_Parse lib f0 arguments = Ok (f, None) \<and> nm \<in> set ord \<and>
    formal f nm = Some fl \<and> nm \<notin> actual f \<and> envNames f nm = Some e \<and> Getenv w e \<noteq> [] \<and>
    snd (Value_Set lib (Value fl) (Getenv w e)) = Some er \<and>
    (\<forall>m \<in> set (unVisitedFlags ord f). m \<noteq> nm \<longrightarrow>
       (\<forall>e'. envNames f m = Some e' \<longrightarrow> Getenv w e' = [])) \<and>
    readConfigurationFiles w lib (unVisitedFlags ord f) f = Ok (None, fm, lg)"
  let ?unv = "unVisitedFlags ord f"
  from a have files: "readFiles w lib ?unv (configFilePaths f) (f, []) = Ok (fm, lg)"
    by (auto simp: readConfigurationFiles_def split: outcome.splits)
  from a have unv: "nm \<in> set ?unv" by (simp add: unVisitedFlags_iff)
  from readFiles_keeps [OF files] have en: "envNames fm = envNames f"
    and ck: "cellKind fm nm = cellKind f nm" by simp_all
  from ck a obtain flm where flm: "formal fm nm = Some flm"
    by (auto simp: cellKind_def)
  from a have fl: "formal f nm = Some fl" by simp
  have same: "Value_Set lib (Value flm) (Getenv w e) = Value_Set lib (Value fl) (Getenv w e)"
    by (rule cellKind_Value_Set [OF ck fl flm])
  have "snd (envLoop w lib ?unv (fm, None)) = snd (Value_Set lib (Value flm) (Getenv w e))"
    using a en by (intro envLoop_err [OF unv _ _ flm]) auto
  with same a have "snd (envLoop w lib ?unv (fm, None)) = Some er" by simp
  with Collate_run [OF files] a show "returned (Parse w lib ord f0 arguments) = Some (Some er)"
    by (simp add: Parse_def returned_def)
next
  assume a: "FlagSet_Parse lib f0 arguments = Ok (f, None) \<and>
    (\<forall>m \<in> set (unVisitedFlags ord f). \<forall>e'. envNames f m = Some e' \<longrightarrow> Getenv w e' = [])"
  show "returned (Parse w lib ord f0 arguments) \<noteq> Some (Some x)"
  proof (cases "Collate w lib ord f")
    case (Abort b)
    with a show ?thesis by (simp add: Parse_def returned_def)
  next
    case (Ok r)
    obtain err f2 lg where r: "r = (err, f2, lg)" by (cases r)
    from Ok r obtain fm where
      files: "readFiles w lib (unVisitedFlags ord f) (configFilePaths f) (f, []) = Ok (fm, lg)"
      and env: "envLoop w lib (unVisitedFlags ord f) (fm, None) = (f2, err)"
      by (auto elim: Collate_Ok)
    from readFiles_keeps [OF files] have "envNames fm = envNames f" by simp
    with a have "envLoop w lib (unVisitedFlags ord f) (fm, None) = (fm, None)"
      by (intro envLoop_none) simp
    with env have "err = None" by simp
    with Ok r a show ?thesis by (simp add: Parse_def returned_def)
  qed
next
  assume "readConfigurationFiles w' lib' unv' f' = Ok (err', f'', lg')"
  then show "err' = None"
    by (auto simp: readConfigurationFiles_def split: outcome.splits)
qed

theorem C10_env_error_returned_file_error_dropped_witness:
  "FlagSet_Parse decimalConv hostReg [''-config=cfg.json''] = Ok (hostSet, None) \<and>
   unVisitedFlags [''host'', ''count''] hostSet = [''host'', ''count''] \<and>
   Getenv countWorld ''COUNT'' = ''abc'' \<and> Getenv countWorld ''HOST_ENV'' = [] \<and>
   snd (Value_Set decimalConv (intValue 1) ''abc'') = Some syntaxError \<and>
   returned (Parse countWorld decimalConv [''host'', ''count''] hostReg [''-config=cfg.json''])
     = Some (Some syntaxError) \<and>
   returned (Parse quietWorld decimalConv [''host'', ''count''] hostReg [''-config=cfg.json''])
     = Some None \<and>
   (\<exists>fm. readConfigurationFiles countWorld decimalConv [''host'', ''count''] hostSet
           = Ok (None, fm, []))"
proof -
  let ?ord = "[''host'', ''count'']"
  let ?args = "[''-config=cfg.json'']"
  let ?fl = "\<lparr>Name = ''count'', Usage = ''a count'', Value = intValue 1\<rparr>"
  let ?fm = "case readConfigurationFiles countWorld decimalConv ?ord hostSet of
               Ok (e, g, lg) \<Rightarrow> g | Abort a \<Rightarrow> hostSet"
  have u: "unVisitedFlags ?ord hostSet = ?ord"
    by (simp add: unVisitedFlags_def hostSet_def)
  have g1: "Getenv countWorld ''COUNT'' = ''abc''" "Getenv countWorld ''HOST_ENV'' = []"
    by (simp_all add: countWorld_def envWorld_def)
  have sv: "snd (Value_Set decimalConv (intValue 1) ''abc'') = Some syntaxError"
    by (simp add: conv_simps)
  have rc: "readConfigurationFiles countWorld decimalConv ?ord hostSet = Ok (None, ?fm, [])"
    by (simp add: eval_simps countWorld_def envWorld_def hostSet_def)
  have h1: "FlagSet_Parse decimalConv hostReg ?args = Ok (hostSet, None) \<and>
    ''count'' \<in> set ?ord \<and> formal hostSet ''count'' = Some ?fl \<and>
    ''count'' \<notin> actual hostSet \<and> envNames hostSet ''count'' = Some ''COUNT'' \<and>
    Getenv countWorld ''COUNT'' \<noteq> [] \<and>
    snd (Value_Set decimalConv (Value ?fl) (Getenv countWorld ''COUNT'')) = Some syntaxError \<and>
    (\<forall>m \<in> set (unVisitedFlags ?ord hostSet). m \<noteq> ''count'' \<longrightarrow>
       (\<forall>e'. envNames hostSet m = Some e' \<longrightarrow> Getenv countWorld e' = [])) \<and>
    readConfigurationFiles countWorld decimalConv (unVisitedFlags ?ord hostSet) hostSet
      = Ok (None, ?fm, [])"
    unfolding u using hostReg_parse g1 sv rc by (simp add: hostSet_def)
  have h2: "FlagSet_Parse decimalConv hostReg ?args = Ok (hostSet, None) \<and>
    (\<forall>m \<in> set (unVisitedFlags ?ord hostSet).
       \<forall>e'. envNames hostSet m = Some e' \<longrightarrow> Getenv quietWorld e' = [])"
    using hostReg_parse by (simp add: quietWorld_def)
  note T = C10_env_error_returned_file_error_dropped
    [where lib = decimalConv and ?f0.0 = hostReg and arguments = ?args and f = hostSet
       and ord = ?ord and x = syntaxError]
  from T [where w = countWorld and nm = "''count''", THEN conjunct1, THEN mp, OF h1]
  have c1: "returned (Parse countWorld decimalConv ?ord hostReg ?args) = Some (Some syntaxError)" .
  from T [where w = quietWorld, THEN conjunct2, THEN conjunct1, THEN mp, OF h2]
  have c2: "returned (Parse quietWorld decimalConv ?ord hostReg ?args) \<noteq> Some (Some syntaxError)" .
  have c3: "returned (Parse quietWorld decimalConv ?ord hostReg ?args) = Some None"
    by (simp add: eval_simps conv_simps hostReg_def quietWorld_def envWorld_def)
  from hostReg_parse u g1 sv c1 c2 c3 rc show ?thesis by blast
qed

end
